theory Spec2Isabelle
  imports Complex_Main
begin

section \<open>Representation kinds, failures and the heap\<close>

text \<open>
  The unit under study is \<^verbatim>\<open>src/lib/mra/_sepreptensor.h\<close>: the handle \<^verbatim>\<open>GenTensor\<close>,
  its slice proxy \<^verbatim>\<open>SliceGenTensor\<close>, the abstract backend \<^verbatim>\<open>SepRepTensor\<close> with the two
  variants \<^verbatim>\<open>FullTensor\<close> and \<^verbatim>\<open>LowRankTensor\<close>, and the conversions \<^verbatim>\<open>to_full_rank\<close> and
  \<^verbatim>\<open>to_low_rank\<close>.  The element type \<^verbatim>\<open>T\<close> is the type variable \<open>'a\<close>; the \<^verbatim>\<open>double\<close> factors
  of \<^verbatim>\<open>gaxpy\<close>, \<^verbatim>\<open>scale\<close> and \<^verbatim>\<open>accumulate_into\<close> are values of \<open>'a\<close> as well (the header is
  used at \<^verbatim>\<open>T = double\<close>), accuracies are \<open>real\<close>.
\<close>

text \<open>The enumeration \<^verbatim>\<open>TensorType\<close> (declared in \<^verbatim>\<open>mra/seprep.h\<close>).\<close>

datatype TensorType = TT_NONE | TT_FULL | TT_3D | TT_2D

text \<open>
  Every way a call of the header can fail.  \<open>AssertionFailed\<close> is a failed
  \<^verbatim>\<open>MADNESS_ASSERT\<close>, \<open>MadnessException\<close> a \<^verbatim>\<open>MADNESS_EXCEPTION\<close>, \<open>RuntimeError\<close> a thrown
  \<^verbatim>\<open>std::runtime_error\<close>, \<open>TensorException\<close> a violated precondition of the dense array
  primitive, \<open>LengthError\<close> the \<^verbatim>\<open>std::length_error\<close> of a \<^verbatim>\<open>std::vector\<close> constructed with a
  negative count.  \<open>NullPointer\<close> stands for a member call through an empty \<^verbatim>\<open>shared_ptr\<close> or
  through the null result of a \<^verbatim>\<open>dynamic_cast\<close>: the C++ behaviour is undefined there and
  the model makes it a failure of its own.
\<close>

datatype error =
    AssertionFailed
  | MadnessException
  | RuntimeError
  | TensorException
  | LengthError
  | NullPointer

type_synonym addr = nat

text \<open>
  A \<^verbatim>\<open>Tensor<T>\<close> value is a view: a shared pointer to a buffer, an offset into it, the
  extents and the strides.  Assigning or copy-constructing a \<^verbatim>\<open>Tensor<T>\<close> copies this
  descriptor only (the buffer is shared); the default-constructed tensor has no buffer.
\<close>

record Tensor =
  t_p :: "addr option"
  t_off :: nat
  t_dim :: "nat list"
  t_stride :: "nat list"

text \<open>
  A backend object: \<^verbatim>\<open>FullTensor<T>\<close> holds its member \<^verbatim>\<open>data\<close>, \<^verbatim>\<open>LowRankTensor<T>\<close> its
  member \<^verbatim>\<open>_data\<close>, a value of the separated representation \<open>'s\<close>.
\<close>

datatype 's SepRepTensor = FullTensor Tensor | LowRankTensor 's

text \<open>
  The heap: the dense buffers that tensors point into, and the backend objects that
  handles point to.  An address is an index; allocation appends.  Reference counts are
  not kept: an object no handle points to any more is unreachable, not removed.
\<close>

record ('a, 's) heap =
  bufs :: "'a list list"
  objs :: "'s SepRepTensor list"

text \<open>A \<^verbatim>\<open>GenTensor<T>\<close> is its only member, the shared pointer \<^verbatim>\<open>_ptr\<close>.\<close>

type_synonym GenTensor = "addr option"

text \<open>
  A computation takes the heap and returns a result or a failure, together with the heap
  as it is at that moment: what a call did before it threw stays done.
\<close>

type_synonym ('r, 'a, 's) M = "('a, 's) heap \<Rightarrow> (error + 'r) \<times> ('a, 's) heap"

definition return :: "'r \<Rightarrow> ('r, 'a, 's) M" where
  "return x h = (Inr x, h)"

definition throw :: "error \<Rightarrow> ('r, 'a, 's) M" where
  "throw e h = (Inl e, h)"

definition bind :: "('r, 'a, 's) M \<Rightarrow> ('r \<Rightarrow> ('q, 'a, 's) M) \<Rightarrow> ('q, 'a, 's) M" where
  "bind m f h = (case m h of (Inl e, h') \<Rightarrow> (Inl e, h') | (Inr x, h') \<Rightarrow> f x h')"

text \<open>
  Modelled from the spec: the macro \<^verbatim>\<open>MADNESS_ASSERT\<close> is not defined in the header; by the
  spec's failure policy a violated precondition is fatal to the call.
\<close>

definition MADNESS_ASSERT :: "bool \<Rightarrow> (unit, 'a, 's) M" where
  "MADNESS_ASSERT c = (if c then return () else throw AssertionFailed)"

text \<open>\<^verbatim>\<open>p->\<close> on a shared pointer, \<^verbatim>\<open>new\<close> and the write-back of a changed object.\<close>

definition deref :: "addr option \<Rightarrow> ('s SepRepTensor, 'a, 's) M" where
  "deref p h = (case p of None \<Rightarrow> (Inl NullPointer, h) | Some a \<Rightarrow> (Inr (objs h ! a), h))"

definition new_obj :: "'s SepRepTensor \<Rightarrow> (addr, 'a, 's) M" where
  "new_obj b h = (Inr (length (objs h)), h\<lparr>objs := objs h @ [b]\<rparr>)"

definition set_obj :: "addr \<Rightarrow> 's SepRepTensor \<Rightarrow> (unit, 'a, 's) M" where
  "set_obj a b h = (Inr (), h\<lparr>objs := (objs h)[a := b]\<rparr>)"

definition new_buf :: "'a list \<Rightarrow> (addr, 'a, 's) M" where
  "new_buf xs h = (Inr (length (bufs h)), h\<lparr>bufs := bufs h @ [xs]\<rparr>)"

section \<open>The dense array primitive\<close>

text \<open>
  Modelled from the spec: \<^verbatim>\<open>tensor/tensor.h\<close> is not part of the unit.  The spec lists what
  the Dense Array supports (construction from a shape, copy, scale, in-place generalized
  saxpy, slicing, swap-dimensions, trace-conjugate) and makes a dimension mismatch fatal;
  the header's own comments say that assignment of tensors is shallow and \<^verbatim>\<open>copy\<close> deep.
  Elements are laid out row-major.
\<close>

fun row_major :: "nat list \<Rightarrow> nat list" where
  "row_major [] = []"
| "row_major (d # ds) = prod_list ds # row_major ds"

text \<open>The buffer positions of a view's elements, in the order of its indices.\<close>

fun positions :: "nat list \<Rightarrow> nat list \<Rightarrow> nat \<Rightarrow> nat list" where
  "positions [] ss off = [off]"
| "positions (d # ds) [] off = []"
| "positions (d # ds) (s # ss) off =
     concat (map (\<lambda>i. positions ds ss (off + i * s)) [0..<d])"

definition Tensor_default :: Tensor where
  "Tensor_default = \<lparr>t_p = None, t_off = 0, t_dim = [], t_stride = []\<rparr>"

definition Tensor_positions :: "Tensor \<Rightarrow> nat list" where
  "Tensor_positions t =
     (case t_p t of None \<Rightarrow> [] | Some q \<Rightarrow> positions (t_dim t) (t_stride t) (t_off t))"

definition Tensor_elems :: "('a, 's) heap \<Rightarrow> Tensor \<Rightarrow> 'a list" where
  "Tensor_elems h t =
     (case t_p t of None \<Rightarrow> [] | Some q \<Rightarrow> map (\<lambda>i. bufs h ! q ! i) (Tensor_positions t))"

definition Tensor_size :: "Tensor \<Rightarrow> int" where
  "Tensor_size t = (case t_p t of None \<Rightarrow> 0 | Some q \<Rightarrow> int (prod_list (t_dim t)))"

definition Tensor_ndim :: "Tensor \<Rightarrow> int" where
  "Tensor_ndim t = (case t_p t of None \<Rightarrow> - 1 | Some q \<Rightarrow> int (length (t_dim t)))"

definition Tensor_iscontiguous :: "Tensor \<Rightarrow> bool" where
  "Tensor_iscontiguous t = (t_stride t = row_major (t_dim t))"

text \<open>\<^verbatim>\<open>copy(t)\<close>: a fresh contiguous buffer holding the elements of the view.\<close>

definition Tensor_copy :: "Tensor \<Rightarrow> (Tensor, 'a, 's) M" where
  "Tensor_copy t h =
     (case t_p t of
        None \<Rightarrow> return Tensor_default h
      | Some q \<Rightarrow>
          bind (new_buf (Tensor_elems h t))
            (\<lambda>q'. return \<lparr>t_p = Some q', t_off = 0, t_dim = t_dim t,
                           t_stride = row_major (t_dim t)\<rparr>) h)"

text \<open>\<^verbatim>\<open>t.swapdim(i,j)\<close>: a view of the same buffer with two dimensions exchanged.\<close>

definition Tensor_swapdim :: "Tensor \<Rightarrow> int \<Rightarrow> int \<Rightarrow> (Tensor, 'a, 's) M" where
  "Tensor_swapdim t i j =
     (if 0 \<le> i \<and> i < Tensor_ndim t \<and> 0 \<le> j \<and> j < Tensor_ndim t
      then return (t\<lparr>t_dim := (t_dim t)[nat i := t_dim t ! nat j, nat j := t_dim t ! nat i],
                     t_stride := (t_stride t)[nat i := t_stride t ! nat j,
                                              nat j := t_stride t ! nat i]\<rparr>)
      else throw TensorException)"

text \<open>
  A slice specification \<^verbatim>\<open>Slice(start, stop, step)\<close> selects, in a dimension of extent
  \<open>d\<close>, the indices \<open>start, start + step, ...\<close> up to \<open>stop\<close>; a negative bound counts from
  the end, so that \<^verbatim>\<open>Slice(_)\<close>, the whole range, is \<open>Slice 0 (- 1) 1\<close>.  A bound outside
  the dimension or an empty range is a violated precondition.  Steps below 1 (reversed
  or collapsed dimensions) are not modelled and are rejected as well.
\<close>

datatype Slice = Slice int int int

definition Slice_all :: Slice where
  "Slice_all = Slice 0 (- 1) 1"

fun slice_range :: "Slice \<Rightarrow> nat \<Rightarrow> (nat \<times> nat \<times> nat) option" where
  "slice_range (Slice start stop step) d =
     (let b = (if start < 0 then start + int d else start);
          e = (if stop < 0 then stop + int d else stop)
      in if 1 \<le> step \<and> 0 \<le> b \<and> b < int d \<and> 0 \<le> e \<and> e < int d \<and> b \<le> e
         then Some (nat b, nat ((e - b) div step + 1), nat step)
         else None)"

fun slice_view ::
  "Slice list \<Rightarrow> nat list \<Rightarrow> nat list \<Rightarrow> nat \<Rightarrow> (nat \<times> nat list \<times> nat list) option" where
  "slice_view [] [] [] off = Some (off, [], [])"
| "slice_view (s # ss) (d # ds) (k # ks) off =
     (case slice_range s d of
        None \<Rightarrow> None
      | Some (b, n, step) \<Rightarrow>
          (case slice_view ss ds ks (off + b * k) of
             None \<Rightarrow> None
           | Some (off', ds', ks') \<Rightarrow> Some (off', n # ds', (step * k) # ks')))"
| "slice_view ss ds ks off = None"

text \<open>\<^verbatim>\<open>t(s)\<close>: the view of the addressed region; it shares the buffer of \<open>t\<close>.\<close>

definition Tensor_slice :: "Tensor \<Rightarrow> Slice list \<Rightarrow> (Tensor, 'a, 's) M" where
  "Tensor_slice t s =
     (case t_p t of
        None \<Rightarrow> throw TensorException
      | Some q \<Rightarrow>
          (case slice_view s (t_dim t) (t_stride t) (t_off t) of
             None \<Rightarrow> throw TensorException
           | Some (off, ds, ks) \<Rightarrow>
               return \<lparr>t_p = Some q, t_off = off, t_dim = ds, t_stride = ks\<rparr>))"

definition Tensor_conforms :: "Tensor \<Rightarrow> Tensor \<Rightarrow> bool" where
  "Tensor_conforms l r = (Tensor_ndim l = Tensor_ndim r \<and> t_dim l = t_dim r)"

definition set_elem :: "addr \<Rightarrow> nat \<Rightarrow> 'a \<Rightarrow> 'a list list \<Rightarrow> 'a list list" where
  "set_elem q i v bs = bs[q := (bs ! q)[i := v]]"

text \<open>
  The element-wise in-place operations, one element after the other in index order:
  \<open>l[i] := f l[i]\<close> and \<open>l[i] := f l[i] r[i]\<close>.  The binary one requires conforming shapes.
\<close>

definition Tensor_unary :: "('a \<Rightarrow> 'a) \<Rightarrow> Tensor \<Rightarrow> (unit, 'a, 's) M" where
  "Tensor_unary f l h =
     (case t_p l of
        None \<Rightarrow> (Inr (), h)
      | Some q \<Rightarrow>
          (Inr (), h\<lparr>bufs := fold (\<lambda>i bs. set_elem q i (f (bs ! q ! i)) bs)
                                  (Tensor_positions l) (bufs h)\<rparr>))"

definition Tensor_binary :: "('a \<Rightarrow> 'a \<Rightarrow> 'a) \<Rightarrow> Tensor \<Rightarrow> Tensor \<Rightarrow> (unit, 'a, 's) M" where
  "Tensor_binary f l r h =
     (if Tensor_conforms l r then
        (case t_p l of
           None \<Rightarrow> (Inr (), h)
         | Some ql \<Rightarrow>
             (case t_p r of
                None \<Rightarrow> (Inr (), h)
              | Some qr \<Rightarrow>
                  (Inr (), h\<lparr>bufs := fold (\<lambda>(i, j) bs. set_elem ql i (f (bs ! ql ! i) (bs ! qr ! j)) bs)
                                          (zip (Tensor_positions l) (Tensor_positions r))
                                          (bufs h)\<rparr>)))
      else (Inl TensorException, h))"

text \<open>\<^verbatim>\<open>t *= a\<close>, \<^verbatim>\<open>l += r\<close> and \<^verbatim>\<open>l.gaxpy(alpha, r, beta)\<close>, that is \<open>l = l*alpha + r*beta\<close>.\<close>

definition Tensor_scale :: "Tensor \<Rightarrow> 'a::comm_ring_1 \<Rightarrow> (unit, 'a, 's) M" where
  "Tensor_scale t a = Tensor_unary (\<lambda>x. x * a) t"

definition Tensor_plus_eq :: "Tensor \<Rightarrow> Tensor \<Rightarrow> (unit, 'a::comm_ring_1, 's) M" where
  "Tensor_plus_eq l r = Tensor_binary (\<lambda>x y. x + y) l r"

definition Tensor_gaxpy :: "Tensor \<Rightarrow> 'a::comm_ring_1 \<Rightarrow> Tensor \<Rightarrow> 'a \<Rightarrow> (unit, 'a, 's) M" where
  "Tensor_gaxpy l alpha r beta = Tensor_binary (\<lambda>x y. x * alpha + y * beta) l r"

definition Tensor_trace_conj :: "Tensor \<Rightarrow> Tensor \<Rightarrow> ('a::comm_ring_1, 'a, 's) M" where
  "Tensor_trace_conj l r h =
     (if Tensor_conforms l r
      then (Inr (sum_list (map (\<lambda>(x, y). x * y) (zip (Tensor_elems h l) (Tensor_elems h r)))), h)
      else (Inl TensorException, h))"

section \<open>The separated representation primitive\<close>

text \<open>
  Modelled from the spec: \<^verbatim>\<open>mra/seprep.h\<close> is not part of the unit, and the spec treats the
  factorization engine as a given type with primitives.  A value of \<^verbatim>\<open>SepRep<T>\<close> is a
  value of the type parameter \<open>'s\<close>, and the primitives the header calls are the fields
  of a record that every definition below takes as its first argument; whatever is
  proved holds for every engine.  The primitives are total functions on values: a
  \<^verbatim>\<open>SepRep<T>\<close> made by a constructor, by \<^verbatim>\<open>copy\<close> or by slicing shares nothing with its
  source (the spec: construction from a dense array and from a slice is deep), and a
  failure raised inside the engine is outside the model.
\<close>

record ('a, 's) SepRep_ops =
  sr_SepRep_tt :: "TensorType \<Rightarrow> 's"
  sr_SepRep_Tensor :: "nat list \<Rightarrow> 'a list \<Rightarrow> real \<Rightarrow> TensorType \<Rightarrow> 's"
  sr_slice :: "'s \<Rightarrow> Slice list \<Rightarrow> 's"
  sr_copy :: "'s \<Rightarrow> 's"
  sr_tensor_type :: "'s \<Rightarrow> TensorType"
  sr_is_valid :: "'s \<Rightarrow> bool"
  sr_nCoeff :: "'s \<Rightarrow> int"
  sr_rank :: "'s \<Rightarrow> int"
  sr_dim :: "'s \<Rightarrow> int"
  sr_reduceRank :: "'s \<Rightarrow> real \<Rightarrow> 's"
  sr_reconstructTensor :: "'s \<Rightarrow> nat list \<times> 'a list"
  sr_overlap :: "'s \<Rightarrow> 's \<Rightarrow> 'a"
  sr_inplace_add :: "'s \<Rightarrow> 's \<Rightarrow> Slice list \<Rightarrow> Slice list \<Rightarrow> 'a \<Rightarrow> 'a \<Rightarrow> 's"
  sr_scale :: "'s \<Rightarrow> 'a \<Rightarrow> 's"
  sr_accumulate_into :: "'s \<Rightarrow> 's \<Rightarrow> 'a \<Rightarrow> 's"
  sr_update_by :: "'s \<Rightarrow> 's \<Rightarrow> 's"
  sr_finalize_accumulate :: "'s \<Rightarrow> 's"

text \<open>A \<^verbatim>\<open>Tensor<T>\<close> returned by value from the engine owns a fresh buffer.\<close>

definition Tensor_of :: "nat list \<times> 'a list \<Rightarrow> (Tensor, 'a, 's) M" where
  "Tensor_of v =
     bind (new_buf (snd v))
       (\<lambda>q. return \<lparr>t_p = Some q, t_off = 0, t_dim = fst v, t_stride = row_major (fst v)\<rparr>)"

section \<open>The backends\<close>

text \<open>
  The const queries of \<^verbatim>\<open>SepRepTensor\<close>, by variant: \<^verbatim>\<open>type()\<close>, \<^verbatim>\<open>has_data()\<close>, \<^verbatim>\<open>size()\<close>,
  \<^verbatim>\<open>ndim()\<close> and \<^verbatim>\<open>rank()\<close> of \<^verbatim>\<open>FullTensor\<close> and of \<^verbatim>\<open>LowRankTensor\<close>.
\<close>

definition SepRepTensor_type :: "('a, 's) SepRep_ops \<Rightarrow> 's SepRepTensor \<Rightarrow> TensorType" where
  "SepRepTensor_type ops b =
     (case b of FullTensor t \<Rightarrow> TT_FULL | LowRankTensor d \<Rightarrow> sr_tensor_type ops d)"

definition SepRepTensor_size :: "('a, 's) SepRep_ops \<Rightarrow> 's SepRepTensor \<Rightarrow> int" where
  "SepRepTensor_size ops b =
     (case b of
        FullTensor t \<Rightarrow> Tensor_size t
      | LowRankTensor d \<Rightarrow> (if \<not> sr_is_valid ops d then 0 else sr_nCoeff ops d))"

definition SepRepTensor_has_data :: "('a, 's) SepRep_ops \<Rightarrow> 's SepRepTensor \<Rightarrow> bool" where
  "SepRepTensor_has_data ops b =
     (case b of FullTensor t \<Rightarrow> Tensor_size t \<noteq> 0 | LowRankTensor d \<Rightarrow> sr_is_valid ops d)"

definition SepRepTensor_ndim :: "('a, 's) SepRep_ops \<Rightarrow> 's SepRepTensor \<Rightarrow> int" where
  "SepRepTensor_ndim ops b =
     (case b of FullTensor t \<Rightarrow> Tensor_ndim t | LowRankTensor d \<Rightarrow> sr_dim ops d)"

definition SepRepTensor_rank :: "('a, 's) SepRep_ops \<Rightarrow> 's SepRepTensor \<Rightarrow> int" where
  "SepRepTensor_rank ops b =
     (case b of FullTensor t \<Rightarrow> - 1 | LowRankTensor d \<Rightarrow> sr_rank ops d)"

text \<open>
  \<^verbatim>\<open>dynamic_cast<const FullTensor<T>*>(rhs)->data\<close> and
  \<^verbatim>\<open>dynamic_cast<const LowRankTensor<T>*>(rhs)->_data\<close>: the cast of a pointer to the other
  variant is null.
\<close>

definition cast_FullTensor :: "addr option \<Rightarrow> (Tensor, 'a, 's) M" where
  "cast_FullTensor p =
     bind (deref p) (\<lambda>b. case b of FullTensor t \<Rightarrow> return t | LowRankTensor d \<Rightarrow> throw NullPointer)"

definition cast_LowRankTensor :: "addr option \<Rightarrow> ('s, 'a, 's) M" where
  "cast_LowRankTensor p =
     bind (deref p) (\<lambda>b. case b of FullTensor t \<Rightarrow> throw NullPointer | LowRankTensor d \<Rightarrow> return d)"

text \<open>\<^verbatim>\<open>std::vector<Slice> s(n, Slice(_))\<close> for a \<^verbatim>\<open>long n\<close>.\<close>

definition vector_Slice :: "int \<Rightarrow> (Slice list, 'a, 's) M" where
  "vector_Slice n = (if n < 0 then throw LengthError else return (replicate (nat n) Slice_all))"

text \<open>
  \<^verbatim>\<open>MADNESS_ASSERT(0)\<close> as the last statement of a function that has to return a value:
  nothing is returned.
\<close>

definition MADNESS_ASSERT_0 :: "('r, 'a, 's) M" where
  "MADNESS_ASSERT_0 = throw AssertionFailed"

subsection \<open>\<^verbatim>\<open>FullTensor\<close>\<close>

text \<open>
  The member functions of \<^verbatim>\<open>FullTensor<T>\<close>; the first argument after the primitives is the
  member \<^verbatim>\<open>data\<close> of \<^verbatim>\<open>*this\<close>.  A constructor \<^verbatim>\<open>FullTensor(const Tensor<T>&)\<close> and the copy
  constructor assign \<^verbatim>\<open>data\<close>, which shares the buffer.
\<close>

definition FullTensor_gaxpy ::
  "('a::comm_ring_1, 's) SepRep_ops \<Rightarrow> Tensor \<Rightarrow> 'a \<Rightarrow> addr option \<Rightarrow> 'a \<Rightarrow> (unit, 'a, 's) M" where
  "FullTensor_gaxpy ops data alpha rhs beta =
     bind (deref rhs) (\<lambda>r.
     bind (MADNESS_ASSERT (TT_FULL = SepRepTensor_type ops r)) (\<lambda>_.
     bind (cast_FullTensor rhs) (\<lambda>t.
     Tensor_gaxpy data alpha t beta)))"

definition FullTensor_clone_s :: "Tensor \<Rightarrow> Slice list \<Rightarrow> (addr, 'a, 's) M" where
  "FullTensor_clone_s data s =
     bind (Tensor_slice data s) (\<lambda>v.
     bind (Tensor_copy v) (\<lambda>t.
     new_obj (FullTensor t)))"

definition FullTensor_copy_this :: "Tensor \<Rightarrow> (addr, 'a, 's) M" where
  "FullTensor_copy_this data = bind (Tensor_copy data) (\<lambda>t. new_obj (FullTensor t))"

definition FullTensor_swapdim :: "Tensor \<Rightarrow> int \<Rightarrow> int \<Rightarrow> (addr, 'a, 's) M" where
  "FullTensor_swapdim data idim jdim =
     bind (Tensor_swapdim data idim jdim) (\<lambda>t. new_obj (FullTensor t))"

definition FullTensor_trace_conj :: "Tensor \<Rightarrow> addr option \<Rightarrow> ('a::comm_ring_1, 'a, 's) M" where
  "FullTensor_trace_conj data rhs =
     bind (cast_FullTensor rhs) (\<lambda>other. Tensor_trace_conj data other)"

definition FullTensor_accumulate_into ::
  "('a::comm_ring_1, 's) SepRep_ops \<Rightarrow> Tensor \<Rightarrow> addr option \<Rightarrow> 'a \<Rightarrow> (unit, 'a, 's) M" where
  "FullTensor_accumulate_into ops data rhs fac =
     bind (deref rhs) (\<lambda>r.
     bind (MADNESS_ASSERT (TT_FULL = SepRepTensor_type ops r)) (\<lambda>_.
     bind (cast_FullTensor rhs) (\<lambda>rhs2.
     Tensor_gaxpy rhs2 1 data fac)))"

definition FullTensor_inplace_add ::
  "('a::comm_ring_1, 's) SepRep_ops \<Rightarrow> Tensor \<Rightarrow> addr option \<Rightarrow> Slice list \<Rightarrow> Slice list \<Rightarrow>
     (unit, 'a, 's) M" where
  "FullTensor_inplace_add ops data rhs lhs_s rhs_s =
     bind (deref rhs) (\<lambda>r.
     bind (MADNESS_ASSERT (TT_FULL = SepRepTensor_type ops r)) (\<lambda>_.
     bind (cast_FullTensor rhs) (\<lambda>rhs2.
     bind (Tensor_slice data lhs_s) (\<lambda>l.
     bind (Tensor_slice rhs2 rhs_s) (\<lambda>r.
     Tensor_plus_eq l r)))))"

definition FullTensor_update_by ::
  "('a::comm_ring_1, 's) SepRep_ops \<Rightarrow> Tensor \<Rightarrow> addr option \<Rightarrow> (unit, 'a, 's) M" where
  "FullTensor_update_by ops data rhs =
     bind (deref rhs) (\<lambda>r.
     bind (MADNESS_ASSERT (TT_FULL = SepRepTensor_type ops r)) (\<lambda>_.
     bind (cast_FullTensor rhs) (\<lambda>rhs2.
     Tensor_plus_eq data rhs2)))"

subsection \<open>\<^verbatim>\<open>LowRankTensor\<close>\<close>

text \<open>
  The member functions of \<^verbatim>\<open>LowRankTensor<T>\<close>; \<open>this\<close> is the address of the object and
  \<open>data\<close> its member \<^verbatim>\<open>_data\<close>.  A member that changes \<^verbatim>\<open>_data\<close> writes the object back.
\<close>

definition LowRankTensor_gaxpy ::
  "('a, 's) SepRep_ops \<Rightarrow> addr \<Rightarrow> 's \<Rightarrow> 'a \<Rightarrow> addr option \<Rightarrow> 'a \<Rightarrow> (unit, 'a, 's) M" where
  "LowRankTensor_gaxpy ops this data alpha rhs beta =
     bind (deref rhs) (\<lambda>r.
     bind (MADNESS_ASSERT (sr_tensor_type ops data = SepRepTensor_type ops r)) (\<lambda>_.
     bind (MADNESS_ASSERT (sr_dim ops data = SepRepTensor_ndim ops r)) (\<lambda>_.
     bind (vector_Slice (sr_dim ops data)) (\<lambda>s.
     bind (cast_LowRankTensor rhs) (\<lambda>t.
     set_obj this (LowRankTensor (sr_inplace_add ops data t s s alpha beta)))))))"

definition LowRankTensor_reconstructTensor :: "('a, 's) SepRep_ops \<Rightarrow> 's \<Rightarrow> (Tensor, 'a, 's) M" where
  "LowRankTensor_reconstructTensor ops data =
     bind (MADNESS_ASSERT (sr_is_valid ops data)) (\<lambda>_.
     Tensor_of (sr_reconstructTensor ops data))"

definition LowRankTensor_trace_conj :: "('a, 's) SepRep_ops \<Rightarrow> 's \<Rightarrow> addr option \<Rightarrow> ('a, 'a, 's) M" where
  "LowRankTensor_trace_conj ops data rhs =
     bind (cast_LowRankTensor rhs) (\<lambda>other. return (sr_overlap ops data other))"

definition LowRankTensor_accumulate_into ::
  "('a, 's) SepRep_ops \<Rightarrow> 's \<Rightarrow> addr option \<Rightarrow> 'a \<Rightarrow> (unit, 'a, 's) M" where
  "LowRankTensor_accumulate_into ops data t fac =
     (case t of
        None \<Rightarrow> throw NullPointer
      | Some a \<Rightarrow>
          bind (cast_LowRankTensor (Some a)) (\<lambda>other.
          set_obj a (LowRankTensor (sr_accumulate_into ops data other fac))))"

definition LowRankTensor_inplace_add ::
  "('a::comm_ring_1, 's) SepRep_ops \<Rightarrow> addr \<Rightarrow> 's \<Rightarrow> addr option \<Rightarrow> Slice list \<Rightarrow> Slice list \<Rightarrow>
     (unit, 'a, 's) M" where
  "LowRankTensor_inplace_add ops this data rhs lhs_s rhs_s =
     bind (deref rhs) (\<lambda>r.
     bind (MADNESS_ASSERT (sr_tensor_type ops data = SepRepTensor_type ops r)) (\<lambda>_.
     bind (cast_LowRankTensor rhs) (\<lambda>rhs2.
     set_obj this (LowRankTensor (sr_inplace_add ops data rhs2 lhs_s rhs_s 1 1)))))"

definition LowRankTensor_update_by ::
  "('a, 's) SepRep_ops \<Rightarrow> addr \<Rightarrow> 's \<Rightarrow> addr option \<Rightarrow> (unit, 'a, 's) M" where
  "LowRankTensor_update_by ops this data rhs =
     bind (deref rhs) (\<lambda>r.
     bind (MADNESS_ASSERT (sr_tensor_type ops data = SepRepTensor_type ops r)) (\<lambda>_.
     bind (cast_LowRankTensor rhs) (\<lambda>rhs2.
     set_obj this (LowRankTensor (sr_update_by ops data rhs2)))))"

subsection \<open>Virtual calls\<close>

text \<open>
  A call \<^verbatim>\<open>p->f(...)\<close> of a virtual member through the pointer \<open>p\<close>: the object is looked
  up and the variant's member runs.  \<^verbatim>\<open>FullTensor\<close> does not override
  \<^verbatim>\<open>reconstructTensor\<close>, so the base class's body runs for it, which asserts false;
  \<^verbatim>\<open>LowRankTensor::fullTensor\<close> and \<^verbatim>\<open>LowRankTensor::swapdim\<close> refuse.
\<close>

definition SepRepTensor_clone_s ::
  "('a, 's) SepRep_ops \<Rightarrow> addr option \<Rightarrow> Slice list \<Rightarrow> (addr, 'a, 's) M" where
  "SepRepTensor_clone_s ops p s =
     bind (deref p) (\<lambda>b. case b of
        FullTensor data \<Rightarrow> FullTensor_clone_s data s
      | LowRankTensor data \<Rightarrow> new_obj (LowRankTensor (sr_slice ops data s)))"

definition SepRepTensor_copy_this :: "('a, 's) SepRep_ops \<Rightarrow> addr option \<Rightarrow> (addr, 'a, 's) M" where
  "SepRepTensor_copy_this ops p =
     bind (deref p) (\<lambda>b. case b of
        FullTensor data \<Rightarrow> FullTensor_copy_this data
      | LowRankTensor data \<Rightarrow> new_obj (LowRankTensor (sr_copy ops data)))"

definition SepRepTensor_inplace_add ::
  "('a::comm_ring_1, 's) SepRep_ops \<Rightarrow> addr option \<Rightarrow> addr option \<Rightarrow> Slice list \<Rightarrow> Slice list \<Rightarrow>
     (unit, 'a, 's) M" where
  "SepRepTensor_inplace_add ops p rhs lhs_s rhs_s =
     (case p of
        None \<Rightarrow> throw NullPointer
      | Some this \<Rightarrow>
          bind (deref (Some this)) (\<lambda>b. case b of
             FullTensor data \<Rightarrow> FullTensor_inplace_add ops data rhs lhs_s rhs_s
           | LowRankTensor data \<Rightarrow> LowRankTensor_inplace_add ops this data rhs lhs_s rhs_s))"

definition SepRepTensor_update_by ::
  "('a::comm_ring_1, 's) SepRep_ops \<Rightarrow> addr option \<Rightarrow> addr option \<Rightarrow> (unit, 'a, 's) M" where
  "SepRepTensor_update_by ops p rhs =
     (case p of
        None \<Rightarrow> throw NullPointer
      | Some this \<Rightarrow>
          bind (deref (Some this)) (\<lambda>b. case b of
             FullTensor data \<Rightarrow> FullTensor_update_by ops data rhs
           | LowRankTensor data \<Rightarrow> LowRankTensor_update_by ops this data rhs))"

definition SepRepTensor_finalize_accumulate ::
  "('a, 's) SepRep_ops \<Rightarrow> addr option \<Rightarrow> (unit, 'a, 's) M" where
  "SepRepTensor_finalize_accumulate ops p =
     (case p of
        None \<Rightarrow> throw NullPointer
      | Some this \<Rightarrow>
          bind (deref (Some this)) (\<lambda>b. case b of
             FullTensor data \<Rightarrow> return ()
           | LowRankTensor data \<Rightarrow>
               set_obj this (LowRankTensor (sr_finalize_accumulate ops data))))"

definition SepRepTensor_reduceRank ::
  "('a, 's) SepRep_ops \<Rightarrow> addr option \<Rightarrow> real \<Rightarrow> (unit, 'a, 's) M" where
  "SepRepTensor_reduceRank ops p eps =
     (case p of
        None \<Rightarrow> throw NullPointer
      | Some this \<Rightarrow>
          bind (deref (Some this)) (\<lambda>b. case b of
             FullTensor data \<Rightarrow> return ()
           | LowRankTensor data \<Rightarrow> set_obj this (LowRankTensor (sr_reduceRank ops data eps))))"

definition SepRepTensor_swapdim ::
  "('a, 's) SepRep_ops \<Rightarrow> addr option \<Rightarrow> int \<Rightarrow> int \<Rightarrow> (addr, 'a, 's) M" where
  "SepRepTensor_swapdim ops p idim jdim =
     bind (deref p) (\<lambda>b. case b of
        FullTensor data \<Rightarrow> FullTensor_swapdim data idim jdim
      | LowRankTensor data \<Rightarrow> MADNESS_ASSERT_0)"

definition SepRepTensor_trace_conj ::
  "('a::comm_ring_1, 's) SepRep_ops \<Rightarrow> addr option \<Rightarrow> addr option \<Rightarrow> ('a, 'a, 's) M" where
  "SepRepTensor_trace_conj ops p rhs =
     bind (deref p) (\<lambda>b. case b of
        FullTensor data \<Rightarrow> FullTensor_trace_conj data rhs
      | LowRankTensor data \<Rightarrow> LowRankTensor_trace_conj ops data rhs)"

definition SepRepTensor_reconstructTensor ::
  "('a, 's) SepRep_ops \<Rightarrow> addr option \<Rightarrow> (Tensor, 'a, 's) M" where
  "SepRepTensor_reconstructTensor ops p =
     bind (deref p) (\<lambda>b. case b of
        FullTensor data \<Rightarrow> MADNESS_ASSERT_0
      | LowRankTensor data \<Rightarrow> LowRankTensor_reconstructTensor ops data)"

definition SepRepTensor_fullTensor :: "addr option \<Rightarrow> (Tensor, 'a, 's) M" where
  "SepRepTensor_fullTensor p =
     bind (deref p) (\<lambda>b. case b of
        FullTensor data \<Rightarrow> return data
      | LowRankTensor data \<Rightarrow> throw MadnessException)"

definition SepRepTensor_scale ::
  "('a::comm_ring_1, 's) SepRep_ops \<Rightarrow> addr option \<Rightarrow> 'a \<Rightarrow> (unit, 'a, 's) M" where
  "SepRepTensor_scale ops p a =
     (case p of
        None \<Rightarrow> throw NullPointer
      | Some this \<Rightarrow>
          bind (deref (Some this)) (\<lambda>b. case b of
             FullTensor data \<Rightarrow> Tensor_scale data a
           | LowRankTensor data \<Rightarrow> set_obj this (LowRankTensor (sr_scale ops data a))))"

definition SepRepTensor_gaxpy ::
  "('a::comm_ring_1, 's) SepRep_ops \<Rightarrow> addr option \<Rightarrow> 'a \<Rightarrow> addr option \<Rightarrow> 'a \<Rightarrow> (unit, 'a, 's) M" where
  "SepRepTensor_gaxpy ops p alpha rhs beta =
     (case p of
        None \<Rightarrow> throw NullPointer
      | Some this \<Rightarrow>
          bind (deref (Some this)) (\<lambda>b. case b of
             FullTensor data \<Rightarrow> FullTensor_gaxpy ops data alpha rhs beta
           | LowRankTensor data \<Rightarrow> LowRankTensor_gaxpy ops this data alpha rhs beta))"

definition SepRepTensor_accumulate_into ::
  "('a::comm_ring_1, 's) SepRep_ops \<Rightarrow> addr option \<Rightarrow> addr option \<Rightarrow> 'a \<Rightarrow> (unit, 'a, 's) M" where
  "SepRepTensor_accumulate_into ops p t fac =
     bind (deref p) (\<lambda>b. case b of
        FullTensor data \<Rightarrow> FullTensor_accumulate_into ops data t fac
      | LowRankTensor data \<Rightarrow> LowRankTensor_accumulate_into ops data t fac)"

section \<open>The handle \<^verbatim>\<open>GenTensor\<close>\<close>

text \<open>\<^verbatim>\<open>struct TensorArgs\<close>; its default constructor throws.\<close>

record TensorArgs =
  args_thresh :: real
  args_tt :: TensorType

definition TensorArgs_default :: "(TensorArgs, 'a, 's) M" where
  "TensorArgs_default = throw MadnessException"

text \<open>
  The constructors return the new handle.  \<^verbatim>\<open>GenTensor()\<close>, \<^verbatim>\<open>GenTensor(tt)\<close>, the shallow
  copy constructor, the two deep constructors from a \<^verbatim>\<open>Tensor<T>\<close> and the private
  constructor from a backend pointer.
\<close>

definition GenTensor_empty :: GenTensor where
  "GenTensor_empty = None"

definition GenTensor_tt :: "('a, 's) SepRep_ops \<Rightarrow> TensorType \<Rightarrow> (GenTensor, 'a, 's) M" where
  "GenTensor_tt ops tt =
     (if tt = TT_FULL then bind (new_obj (FullTensor Tensor_default)) (\<lambda>a. return (Some a))
      else bind (new_obj (LowRankTensor (sr_SepRep_tt ops tt))) (\<lambda>a. return (Some a)))"

definition GenTensor_copy_ctor :: "GenTensor \<Rightarrow> GenTensor" where
  "GenTensor_copy_ctor rhs = rhs"

definition GenTensor_sr :: "addr \<Rightarrow> GenTensor" where
  "GenTensor_sr sr = Some sr"

text \<open>\<^verbatim>\<open>new LowRankTensor<T>(t, eps, tt)\<close>: the engine factors the elements of \<open>t\<close>.\<close>

definition LowRankTensor_Tensor ::
  "('a, 's) SepRep_ops \<Rightarrow> Tensor \<Rightarrow> real \<Rightarrow> TensorType \<Rightarrow> (addr, 'a, 's) M" where
  "LowRankTensor_Tensor ops t eps tt h =
     new_obj (LowRankTensor (sr_SepRep_Tensor ops (t_dim t) (Tensor_elems h t) eps tt)) h"

definition GenTensor_Tensor ::
  "('a, 's) SepRep_ops \<Rightarrow> Tensor \<Rightarrow> real \<Rightarrow> TensorType \<Rightarrow> (GenTensor, 'a, 's) M" where
  "GenTensor_Tensor ops rhs eps tt =
     (if tt = TT_FULL then
        bind (Tensor_copy rhs) (\<lambda>t. bind (new_obj (FullTensor t)) (\<lambda>a. return (Some a)))
      else if tt = TT_3D \<or> tt = TT_2D then
        bind (MADNESS_ASSERT (eps > 0)) (\<lambda>_.
          if Tensor_iscontiguous rhs
          then bind (LowRankTensor_Tensor ops rhs eps tt) (\<lambda>a. return (Some a))
          else bind (Tensor_copy rhs) (\<lambda>t.
               bind (LowRankTensor_Tensor ops t eps tt) (\<lambda>a. return (Some a))))
      else return None)"

definition GenTensor_Tensor_args ::
  "('a, 's) SepRep_ops \<Rightarrow> Tensor \<Rightarrow> TensorArgs \<Rightarrow> (GenTensor, 'a, 's) M" where
  "GenTensor_Tensor_args ops rhs args =
     (if args_tt args = TT_FULL then
        bind (Tensor_copy rhs) (\<lambda>t. bind (new_obj (FullTensor t)) (\<lambda>a. return (Some a)))
      else if args_tt args = TT_3D \<or> args_tt args = TT_2D then
        bind (MADNESS_ASSERT (args_thresh args > 0)) (\<lambda>_.
          if Tensor_iscontiguous rhs
          then bind (LowRankTensor_Tensor ops rhs (args_thresh args) (args_tt args))
                 (\<lambda>a. return (Some a))
          else bind (Tensor_copy rhs) (\<lambda>t.
               bind (LowRankTensor_Tensor ops t (args_thresh args) (args_tt args))
                 (\<lambda>a. return (Some a))))
      else return None)"

text \<open>
  The slice proxy: the reference \<^verbatim>\<open>_refGT\<close> to the viewed handle, held as that handle's
  pointer, and the slices \<^verbatim>\<open>_s\<close>.  \<^verbatim>\<open>g(s)\<close> makes one.
\<close>

record SliceGenTensor =
  sgt_refGT :: GenTensor
  sgt_s :: "Slice list"

definition GenTensor_operator_call :: "GenTensor \<Rightarrow> Slice list \<Rightarrow> SliceGenTensor" where
  "GenTensor_operator_call this s = \<lparr>sgt_refGT = this, sgt_s = s\<rparr>"

text \<open>
  Shallow assignment \<^verbatim>\<open>operator=(const GenTensor&)\<close> and deep assignment
  \<^verbatim>\<open>operator=(const SliceGenTensor&)\<close>; both return the new pointer of \<^verbatim>\<open>*this\<close>.  The deep
  one first clears \<^verbatim>\<open>*this\<close> and then calls \<^verbatim>\<open>clone\<close> through the pointer of the viewed
  handle: \<open>views_this\<close> says that the proxy views the very handle that is assigned to (as
  in \<^verbatim>\<open>g = g(s)\<close>), whose pointer is empty by then.  The constructor from a proxy assigns
  to the handle under construction, which no proxy views.
\<close>

definition GenTensor_operator_assign :: "GenTensor \<Rightarrow> GenTensor \<Rightarrow> GenTensor" where
  "GenTensor_operator_assign this rhs = rhs"

definition GenTensor_operator_assign_Slice ::
  "('a, 's) SepRep_ops \<Rightarrow> bool \<Rightarrow> SliceGenTensor \<Rightarrow> (GenTensor, 'a, 's) M" where
  "GenTensor_operator_assign_Slice ops views_this rhs =
     bind (SepRepTensor_clone_s ops (if views_this then None else sgt_refGT rhs) (sgt_s rhs))
       (\<lambda>a. return (Some a))"

definition GenTensor_Slice :: "('a, 's) SepRep_ops \<Rightarrow> SliceGenTensor \<Rightarrow> (GenTensor, 'a, 's) M" where
  "GenTensor_Slice ops rhs = GenTensor_operator_assign_Slice ops False rhs"

text \<open>The friend \<^verbatim>\<open>copy(const GenTensor&)\<close>, deep.\<close>

definition copy_GenTensor :: "('a, 's) SepRep_ops \<Rightarrow> GenTensor \<Rightarrow> (GenTensor, 'a, 's) M" where
  "copy_GenTensor ops rhs =
     (case rhs of
        Some a \<Rightarrow> bind (SepRepTensor_copy_this ops (Some a)) (\<lambda>sr. return (GenTensor_sr sr))
      | None \<Rightarrow> return GenTensor_empty)"

text \<open>The queries; the first four test the pointer, \<^verbatim>\<open>rank()\<close> does not.\<close>

definition GenTensor_has_data :: "('a, 's) SepRep_ops \<Rightarrow> GenTensor \<Rightarrow> (bool, 'a, 's) M" where
  "GenTensor_has_data ops this =
     (case this of
        None \<Rightarrow> return False
      | Some a \<Rightarrow> bind (deref (Some a)) (\<lambda>b. return (SepRepTensor_has_data ops b)))"

text \<open>\<^verbatim>\<open>size()\<close> returns a \<^verbatim>\<open>size_t\<close>, the backend's \<^verbatim>\<open>long\<close> converted.\<close>

definition GenTensor_size :: "('a, 's) SepRep_ops \<Rightarrow> GenTensor \<Rightarrow> (nat, 'a, 's) M" where
  "GenTensor_size ops this =
     (case this of
        Some a \<Rightarrow> bind (deref (Some a)) (\<lambda>b. return (nat (SepRepTensor_size ops b mod 2 ^ 64)))
      | None \<Rightarrow> return 0)"

definition GenTensor_type :: "('a, 's) SepRep_ops \<Rightarrow> GenTensor \<Rightarrow> (TensorType, 'a, 's) M" where
  "GenTensor_type ops this =
     (case this of
        Some a \<Rightarrow> bind (deref (Some a)) (\<lambda>b. return (SepRepTensor_type ops b))
      | None \<Rightarrow> return TT_NONE)"

definition GenTensor_ndim :: "('a, 's) SepRep_ops \<Rightarrow> GenTensor \<Rightarrow> (int, 'a, 's) M" where
  "GenTensor_ndim ops this =
     (case this of
        Some a \<Rightarrow> bind (deref (Some a)) (\<lambda>b. return (SepRepTensor_ndim ops b))
      | None \<Rightarrow> return (- 1))"

definition GenTensor_rank :: "('a, 's) SepRep_ops \<Rightarrow> GenTensor \<Rightarrow> (int, 'a, 's) M" where
  "GenTensor_rank ops this = bind (deref this) (\<lambda>b. return (SepRepTensor_rank ops b))"

text \<open>The in-place operations and the operations that read two handles.\<close>

definition GenTensor_accumulate_into ::
  "('a::comm_ring_1, 's) SepRep_ops \<Rightarrow> GenTensor \<Rightarrow> GenTensor \<Rightarrow> 'a \<Rightarrow> (unit, 'a, 's) M" where
  "GenTensor_accumulate_into ops this t fac = SepRepTensor_accumulate_into ops this t fac"

definition GenTensor_accumulate_into_complex :: "GenTensor \<Rightarrow> GenTensor \<Rightarrow> (unit, 'a, 's) M" where
  "GenTensor_accumulate_into_complex this rhs = throw MadnessException"

definition GenTensor_operator_plus_eq ::
  "('a::comm_ring_1, 's) SepRep_ops \<Rightarrow> GenTensor \<Rightarrow> GenTensor \<Rightarrow> (unit, 'a, 's) M" where
  "GenTensor_operator_plus_eq ops this rhs =
     bind (deref this) (\<lambda>l.
     bind (deref rhs) (\<lambda>r.
     bind (if SepRepTensor_type ops l \<noteq> SepRepTensor_type ops r
           then MADNESS_ASSERT (SepRepTensor_type ops l = SepRepTensor_type ops r)
           else return ()) (\<lambda>_.
     GenTensor_accumulate_into ops rhs this 1)))"

definition GenTensor_operator_plus_eq_Slice ::
  "('a::comm_ring_1, 's) SepRep_ops \<Rightarrow> GenTensor \<Rightarrow> SliceGenTensor \<Rightarrow> (unit, 'a, 's) M" where
  "GenTensor_operator_plus_eq_Slice ops this rhs =
     bind (deref this) (\<lambda>l.
     bind (deref (sgt_refGT rhs)) (\<lambda>r.
     bind (MADNESS_ASSERT (SepRepTensor_type ops l = SepRepTensor_type ops r)) (\<lambda>_.
     bind (GenTensor_ndim ops this) (\<lambda>n.
     bind (vector_Slice n) (\<lambda>s.
     SepRepTensor_inplace_add ops this (sgt_refGT rhs) s (sgt_s rhs))))))"

definition GenTensor_update_by ::
  "('a::comm_ring_1, 's) SepRep_ops \<Rightarrow> GenTensor \<Rightarrow> GenTensor \<Rightarrow> (unit, 'a, 's) M" where
  "GenTensor_update_by ops this rhs = SepRepTensor_update_by ops this rhs"

definition GenTensor_finalize_accumulate :: "('a, 's) SepRep_ops \<Rightarrow> GenTensor \<Rightarrow> (unit, 'a, 's) M" where
  "GenTensor_finalize_accumulate ops this = SepRepTensor_finalize_accumulate ops this"

definition GenTensor_reduceRank :: "('a, 's) SepRep_ops \<Rightarrow> GenTensor \<Rightarrow> real \<Rightarrow> (unit, 'a, 's) M" where
  "GenTensor_reduceRank ops this eps = SepRepTensor_reduceRank ops this eps"

definition GenTensor_gaxpy_complex :: "GenTensor \<Rightarrow> GenTensor \<Rightarrow> (unit, 'a, 's) M" where
  "GenTensor_gaxpy_complex this rhs = throw MadnessException"

definition GenTensor_gaxpy ::
  "('a::comm_ring_1, 's) SepRep_ops \<Rightarrow> GenTensor \<Rightarrow> 'a \<Rightarrow> GenTensor \<Rightarrow> 'a \<Rightarrow> (unit, 'a, 's) M" where
  "GenTensor_gaxpy ops this alpha rhs beta = SepRepTensor_gaxpy ops this alpha rhs beta"

definition GenTensor_swapdim ::
  "('a, 's) SepRep_ops \<Rightarrow> GenTensor \<Rightarrow> int \<Rightarrow> int \<Rightarrow> (GenTensor, 'a, 's) M" where
  "GenTensor_swapdim ops this idim jdim =
     bind (MADNESS_ASSERT False) (\<lambda>_.
     bind (SepRepTensor_swapdim ops this idim jdim) (\<lambda>sr. return (GenTensor_sr sr)))"

definition GenTensor_trace_conj ::
  "('a::comm_ring_1, 's) SepRep_ops \<Rightarrow> GenTensor \<Rightarrow> GenTensor \<Rightarrow> ('a, 'a, 's) M" where
  "GenTensor_trace_conj ops this rhs =
     bind (GenTensor_type ops this) (\<lambda>tl.
     bind (GenTensor_type ops rhs) (\<lambda>tr.
     bind (MADNESS_ASSERT (tl = tr)) (\<lambda>_.
     SepRepTensor_trace_conj ops this rhs)))"

definition GenTensor_scale ::
  "('a::comm_ring_1, 's) SepRep_ops \<Rightarrow> GenTensor \<Rightarrow> 'a \<Rightarrow> (unit, 'a, 's) M" where
  "GenTensor_scale ops this x =
     (case this of Some a \<Rightarrow> SepRepTensor_scale ops (Some a) x | None \<Rightarrow> return ())"

definition GenTensor_full_tensor :: "GenTensor \<Rightarrow> (Tensor, 'a, 's) M" where
  "GenTensor_full_tensor this = SepRepTensor_fullTensor this"

definition GenTensor_reconstruct_tensor :: "('a, 's) SepRep_ops \<Rightarrow> GenTensor \<Rightarrow> (Tensor, 'a, 's) M" where
  "GenTensor_reconstruct_tensor ops this = SepRepTensor_reconstructTensor ops this"

definition GenTensor_inplace_add ::
  "('a::comm_ring_1, 's) SepRep_ops \<Rightarrow> GenTensor \<Rightarrow> GenTensor \<Rightarrow> Slice list \<Rightarrow> Slice list \<Rightarrow>
     (unit, 'a, 's) M" where
  "GenTensor_inplace_add ops this rhs lhs_s rhs_s =
     SepRepTensor_inplace_add ops this rhs lhs_s rhs_s"

text \<open>
  Multiplication by a scalar.  The member template \<^verbatim>\<open>operator*(const Q&)\<close> is chosen by
  overload resolution for every scalar type but \<^verbatim>\<open>T\<close>, for which the non-template
  \<^verbatim>\<open>operator*(const T&)\<close> is.  An argument is tagged with which of the two it is.
\<close>

datatype ('a, 'q) scalar = Scalar_T 'a | Scalar_Q 'q

definition GenTensor_operator_mult_Q :: "GenTensor \<Rightarrow> 'q \<Rightarrow> (GenTensor, 'a, 's) M" where
  "GenTensor_operator_mult_Q this x =
     bind (MADNESS_ASSERT False) (\<lambda>_. return GenTensor_empty)"

definition GenTensor_operator_mult_T ::
  "('a::comm_ring_1, 's) SepRep_ops \<Rightarrow> GenTensor \<Rightarrow> 'a \<Rightarrow> (GenTensor, 'a, 's) M" where
  "GenTensor_operator_mult_T ops this x =
     bind (copy_GenTensor ops this) (\<lambda>c.
     bind (return (GenTensor_copy_ctor c)) (\<lambda>result.
     bind (GenTensor_scale ops result x) (\<lambda>_.
     return result)))"

definition GenTensor_operator_mult ::
  "('a::comm_ring_1, 's) SepRep_ops \<Rightarrow> GenTensor \<Rightarrow> ('a, 'q) scalar \<Rightarrow> (GenTensor, 'a, 's) M" where
  "GenTensor_operator_mult ops this x =
     (case x of
        Scalar_T v \<Rightarrow> GenTensor_operator_mult_T ops this v
      | Scalar_Q v \<Rightarrow> GenTensor_operator_mult_Q this v)"

section \<open>The slice proxy \<^verbatim>\<open>SliceGenTensor\<close>\<close>

definition SliceGenTensor_operator_assign_GenTensor ::
  "SliceGenTensor \<Rightarrow> GenTensor \<Rightarrow> (unit, 'a, 's) M" where
  "SliceGenTensor_operator_assign_GenTensor this rhs =
     bind (MADNESS_ASSERT False) (\<lambda>_. return ())"

definition SliceGenTensor_operator_assign_Slice ::
  "SliceGenTensor \<Rightarrow> SliceGenTensor \<Rightarrow> (unit, 'a, 's) M" where
  "SliceGenTensor_operator_assign_Slice this rhs =
     bind (MADNESS_ASSERT False) (\<lambda>_. return ())"

definition SliceGenTensor_operator_plus_eq ::
  "('a::comm_ring_1, 's) SepRep_ops \<Rightarrow> SliceGenTensor \<Rightarrow> GenTensor \<Rightarrow> (unit, 'a, 's) M" where
  "SliceGenTensor_operator_plus_eq ops this rhs =
     bind (GenTensor_ndim ops (sgt_refGT this)) (\<lambda>n.
     bind (vector_Slice n) (\<lambda>s.
     GenTensor_inplace_add ops (sgt_refGT this) rhs (sgt_s this) s))"

definition SliceGenTensor_operator_plus_eq_Slice ::
  "('a::comm_ring_1, 's) SepRep_ops \<Rightarrow> SliceGenTensor \<Rightarrow> SliceGenTensor \<Rightarrow> (unit, 'a, 's) M" where
  "SliceGenTensor_operator_plus_eq_Slice ops this rhs =
     GenTensor_inplace_add ops (sgt_refGT this) (sgt_refGT rhs) (sgt_s this) (sgt_s rhs)"

text \<open>
  In-place zeroing \<^verbatim>\<open>operator=(const double&)\<close>: a copy of the slice is negated and added
  in place, with the proxy's slices \<^verbatim>\<open>_s\<close> given for the left and for the right operand.
\<close>

definition SliceGenTensor_operator_assign_number ::
  "('a::comm_ring_1, 's) SepRep_ops \<Rightarrow> SliceGenTensor \<Rightarrow> 'a \<Rightarrow> (unit, 'a, 's) M" where
  "SliceGenTensor_operator_assign_number ops this number =
     bind (MADNESS_ASSERT (number = 0)) (\<lambda>_.
     bind (GenTensor_Slice ops this) (\<lambda>tmp.
     bind (GenTensor_type ops (sgt_refGT this)) (\<lambda>tt.
     bind (if tt = TT_FULL
           then bind (copy_GenTensor ops tmp) (\<lambda>c. return (GenTensor_operator_assign tmp c))
           else return tmp) (\<lambda>tmp.
     bind (GenTensor_scale ops tmp (- 1)) (\<lambda>_.
     GenTensor_inplace_add ops (sgt_refGT this) tmp (sgt_s this) (sgt_s this))))))"

definition copy_SliceGenTensor ::
  "('a, 's) SepRep_ops \<Rightarrow> SliceGenTensor \<Rightarrow> (GenTensor, 'a, 's) M" where
  "copy_SliceGenTensor ops rhs = GenTensor_Slice ops rhs"

section \<open>Conversions\<close>

text \<open>
  \<^verbatim>\<open>to_full_rank(arg)\<close> and \<^verbatim>\<open>to_low_rank(arg, eps, target_type)\<close> take the handle by reference
  and may assign to it; they return its new pointer.
\<close>

definition to_full_rank :: "('a, 's) SepRep_ops \<Rightarrow> GenTensor \<Rightarrow> (GenTensor, 'a, 's) M" where
  "to_full_rank ops arg =
     bind (GenTensor_has_data ops arg) (\<lambda>has.
     if has then
       bind (GenTensor_type ops arg) (\<lambda>tt.
       if tt = TT_FULL then return arg
       else if tt = TT_3D then
         bind (GenTensor_reconstruct_tensor ops arg) (\<lambda>t.
         bind (GenTensor_Tensor ops t 0 TT_FULL) (\<lambda>g.
         return (GenTensor_operator_assign arg g)))
       else throw RuntimeError)
     else
       bind (GenTensor_tt ops TT_FULL) (\<lambda>g.
       return (GenTensor_operator_assign arg g)))"

definition to_low_rank ::
  "('a, 's) SepRep_ops \<Rightarrow> GenTensor \<Rightarrow> real \<Rightarrow> TensorType \<Rightarrow> (GenTensor, 'a, 's) M" where
  "to_low_rank ops arg eps target_type =
     bind (GenTensor_has_data ops arg) (\<lambda>has.
     if has then
       bind (GenTensor_type ops arg) (\<lambda>tt.
       if tt = TT_FULL then
         bind (GenTensor_full_tensor arg) (\<lambda>t1.
         bind (GenTensor_Tensor ops t1 eps target_type) (\<lambda>g.
         return (GenTensor_operator_assign arg g)))
       else if tt = TT_3D then return arg
       else throw RuntimeError)
     else
       bind (GenTensor_tt ops target_type) (\<lambda>g.
       return (GenTensor_operator_assign arg g)))"

section \<open>An exact engine, to run the definitions\<close>

text \<open>
  Modelled from the spec: an engine the definitions can be run with on concrete inputs.
  It is the trivial separated representation, one term for each non-zero entry, held as
  the kind and the array itself (nothing for a representation that is not valid): rank
  reduction drops nothing, reconstruction returns the array, the rank is the number of
  non-zero entries and so 0 exactly for the zero tensor.  No theorem about the header
  depends on it; it only instantiates them.
\<close>

type_synonym 'a exact = "TensorType \<times> (nat list \<times> 'a list) option"

definition exact_slice :: "(nat list \<times> 'a list) \<Rightarrow> Slice list \<Rightarrow> (nat list \<times> 'a list) option" where
  "exact_slice v s =
     (case slice_view s (fst v) (row_major (fst v)) 0 of
        None \<Rightarrow> None
      | Some (off, ds, ks) \<Rightarrow> Some (ds, map (\<lambda>i. snd v ! i) (positions ds ks off)))"

definition exact_inplace_add ::
  "'a::comm_ring_1 exact \<Rightarrow> 'a exact \<Rightarrow> Slice list \<Rightarrow> Slice list \<Rightarrow> 'a \<Rightarrow> 'a \<Rightarrow> 'a exact" where
  "exact_inplace_add this rhs lhs_s rhs_s alpha beta =
     (case snd this of
        None \<Rightarrow> this
      | Some l \<Rightarrow>
          (case snd rhs of
             None \<Rightarrow> this
           | Some r \<Rightarrow>
               (case slice_view lhs_s (fst l) (row_major (fst l)) 0 of
                  None \<Rightarrow> this
                | Some (lo, ld, lk) \<Rightarrow>
                    (case slice_view rhs_s (fst r) (row_major (fst r)) 0 of
                       None \<Rightarrow> this
                     | Some (ro, rd, rk) \<Rightarrow>
                         if ld = rd
                         then (fst this,
                               Some (fst l,
                                 fold (\<lambda>(i, j) xs. xs[i := xs ! i * alpha + snd r ! j * beta])
                                   (zip (positions ld lk lo) (positions rd rk ro)) (snd l)))
                         else this))))"

definition exact_SepRep :: "('a::comm_ring_1, 'a exact) SepRep_ops" where
  "exact_SepRep =
     \<lparr>sr_SepRep_tt = (\<lambda>tt. (tt, None)),
      sr_SepRep_Tensor = (\<lambda>ds xs eps tt. (tt, Some (ds, xs))),
      sr_slice = (\<lambda>d s. (fst d, case snd d of None \<Rightarrow> None | Some v \<Rightarrow> exact_slice v s)),
      sr_copy = (\<lambda>d. d),
      sr_tensor_type = fst,
      sr_is_valid = (\<lambda>d. snd d \<noteq> None),
      sr_nCoeff = (\<lambda>d. case snd d of None \<Rightarrow> 0 | Some v \<Rightarrow> int (length (snd v))),
      sr_rank = (\<lambda>d. case snd d of None \<Rightarrow> 0 | Some v \<Rightarrow> int (length (filter (\<lambda>x. x \<noteq> 0) (snd v)))),
      sr_dim = (\<lambda>d. case snd d of None \<Rightarrow> - 1 | Some v \<Rightarrow> int (length (fst v))),
      sr_reduceRank = (\<lambda>d eps. d),
      sr_reconstructTensor = (\<lambda>d. case snd d of None \<Rightarrow> ([], []) | Some v \<Rightarrow> v),
      sr_overlap = (\<lambda>d e. case snd d of None \<Rightarrow> 0 | Some v \<Rightarrow>
                      (case snd e of None \<Rightarrow> 0 | Some w \<Rightarrow>
                         sum_list (map (\<lambda>(x, y). x * y) (zip (snd v) (snd w))))),
      sr_inplace_add = exact_inplace_add,
      sr_scale = (\<lambda>d a. (fst d, case snd d of None \<Rightarrow> None
                                   | Some v \<Rightarrow> Some (fst v, map (\<lambda>x. x * a) (snd v)))),
      sr_accumulate_into = (\<lambda>d other fac.
         exact_inplace_add other d (replicate (nat (case snd other of None \<Rightarrow> 0 | Some v \<Rightarrow> int (length (fst v)))) Slice_all)
           (replicate (nat (case snd d of None \<Rightarrow> 0 | Some v \<Rightarrow> int (length (fst v)))) Slice_all) 1 fac),
      sr_update_by = (\<lambda>d rhs.
         exact_inplace_add d rhs (replicate (nat (case snd d of None \<Rightarrow> 0 | Some v \<Rightarrow> int (length (fst v)))) Slice_all)
           (replicate (nat (case snd rhs of None \<Rightarrow> 0 | Some v \<Rightarrow> int (length (fst v)))) Slice_all) 1 1),
      sr_finalize_accumulate = (\<lambda>d. d)\<rparr>"

section \<open>What a handle shows, and the operations that change it\<close>

text \<open>
  The content a handle gives access to: nothing for the empty handle, the shape and the
  elements of the dense array for a \<^verbatim>\<open>FullTensor\<close>, the separated representation for a
  \<^verbatim>\<open>LowRankTensor\<close>.  \<open>scaled\<close> is that content multiplied by a scalar.
\<close>

datatype ('a, 's) content = NoBackend | Dense "nat list" "'a list" | LowRank 's

definition GenTensor_content :: "('a, 's) heap \<Rightarrow> GenTensor \<Rightarrow> ('a, 's) content" where
  "GenTensor_content h g =
     (case g of
        None \<Rightarrow> NoBackend
      | Some a \<Rightarrow>
          (case objs h ! a of
             FullTensor t \<Rightarrow> Dense (t_dim t) (Tensor_elems h t)
           | LowRankTensor d \<Rightarrow> LowRank d))"

definition scaled ::
  "('a::comm_ring_1, 's) SepRep_ops \<Rightarrow> 'a \<Rightarrow> ('a, 's) content \<Rightarrow> ('a, 's) content" where
  "scaled ops x c =
     (case c of
        NoBackend \<Rightarrow> NoBackend
      | Dense ds xs \<Rightarrow> Dense ds (map (\<lambda>v. v * x) xs)
      | LowRank d \<Rightarrow> LowRank (sr_scale ops d x))"

text \<open>The content of a deep copy: the engine's \<^verbatim>\<open>copy\<close> of a separated representation.\<close>

definition copied :: "('a, 's) SepRep_ops \<Rightarrow> ('a, 's) content \<Rightarrow> ('a, 's) content" where
  "copied ops c = (case c of LowRank d \<Rightarrow> LowRank (sr_copy ops d) | _ \<Rightarrow> c)"

text \<open>
  Well-formed pointers: a tensor has as many strides as extents and its buffer exists
  (one without a buffer has no extents, as the default-constructed tensor); a
  handle's backend exists and, when dense, holds such a tensor.  A tensor owns its buffer
  when it is the contiguous view of all of it, as every tensor is that the handle's own
  constructors put into a \<^verbatim>\<open>FullTensor\<close>.
\<close>

definition Tensor_ok :: "('a, 's) heap \<Rightarrow> Tensor \<Rightarrow> bool" where
  "Tensor_ok h t =
     (length (t_stride t) = length (t_dim t) \<and>
      (case t_p t of None \<Rightarrow> t_dim t = [] | Some q \<Rightarrow> q < length (bufs h)))"

definition Tensor_owned :: "('a, 's) heap \<Rightarrow> Tensor \<Rightarrow> bool" where
  "Tensor_owned h t =
     (case t_p t of
        None \<Rightarrow> True
      | Some q \<Rightarrow> q < length (bufs h) \<and> t_off t = 0 \<and> t_stride t = row_major (t_dim t) \<and>
                  length (bufs h ! q) = prod_list (t_dim t))"

definition handle_ok :: "('a, 's) heap \<Rightarrow> GenTensor \<Rightarrow> bool" where
  "handle_ok h g =
     (case g of
        None \<Rightarrow> True
      | Some a \<Rightarrow> a < length (objs h) \<and>
          (case objs h ! a of FullTensor t \<Rightarrow> Tensor_ok h t | LowRankTensor d \<Rightarrow> True))"

definition handle_owned :: "('a, 's) heap \<Rightarrow> GenTensor \<Rightarrow> bool" where
  "handle_owned h g =
     (case g of
        None \<Rightarrow> True
      | Some a \<Rightarrow> a < length (objs h) \<and>
          (case objs h ! a of FullTensor t \<Rightarrow> Tensor_owned h t | LowRankTensor d \<Rightarrow> True))"

text \<open>
  The members of the handle, and of a slice proxy of the handle, that change the content
  of the handle's backend in place, as data; \<open>mutate\<close> runs one through the handle and
  \<open>mutate_all\<close> a sequence of them, up to the first that fails.
\<close>

datatype 'a mutation =
    Scale 'a
  | Plus_eq GenTensor
  | Plus_eq_Slice SliceGenTensor
  | Gaxpy 'a GenTensor 'a
  | Update_by GenTensor
  | Finalize_accumulate
  | ReduceRank real
  | Accumulate_from GenTensor 'a
  | Slice_plus_eq "Slice list" GenTensor
  | Slice_plus_eq_Slice "Slice list" SliceGenTensor
  | Slice_assign_number "Slice list" 'a

fun mutate ::
  "('a::comm_ring_1, 's) SepRep_ops \<Rightarrow> GenTensor \<Rightarrow> 'a mutation \<Rightarrow> (unit, 'a, 's) M" where
  "mutate ops g (Scale x) = GenTensor_scale ops g x"
| "mutate ops g (Plus_eq rhs) = GenTensor_operator_plus_eq ops g rhs"
| "mutate ops g (Plus_eq_Slice rhs) = GenTensor_operator_plus_eq_Slice ops g rhs"
| "mutate ops g (Gaxpy alpha rhs beta) = GenTensor_gaxpy ops g alpha rhs beta"
| "mutate ops g (Update_by rhs) = GenTensor_update_by ops g rhs"
| "mutate ops g Finalize_accumulate = GenTensor_finalize_accumulate ops g"
| "mutate ops g (ReduceRank eps) = GenTensor_reduceRank ops g eps"
| "mutate ops g (Accumulate_from src fac) = GenTensor_accumulate_into ops src g fac"
| "mutate ops g (Slice_plus_eq s rhs) =
     SliceGenTensor_operator_plus_eq ops (GenTensor_operator_call g s) rhs"
| "mutate ops g (Slice_plus_eq_Slice s rhs) =
     SliceGenTensor_operator_plus_eq_Slice ops (GenTensor_operator_call g s) rhs"
| "mutate ops g (Slice_assign_number s number) =
     SliceGenTensor_operator_assign_number ops (GenTensor_operator_call g s) number"

fun mutate_all ::
  "('a::comm_ring_1, 's) SepRep_ops \<Rightarrow> GenTensor \<Rightarrow> 'a mutation list \<Rightarrow> (unit, 'a, 's) M" where
  "mutate_all ops g [] = return ()"
| "mutate_all ops g (m # ms) = bind (mutate ops g m) (\<lambda>_. mutate_all ops g ms)"

text \<open>
  The deep constructions: a handle from a \<^verbatim>\<open>Tensor<T>\<close> (both constructors), from a slice
  proxy (the constructor, the assignment \<^verbatim>\<open>operator=(const SliceGenTensor&)\<close>, whose flag
  says whether the proxy views the handle that is assigned to, and
  \<^verbatim>\<open>copy(const SliceGenTensor&)\<close>), and \<^verbatim>\<open>copy(const GenTensor&)\<close>.
\<close>

datatype deep =
    From_Tensor Tensor real TensorType
  | From_Tensor_args Tensor TensorArgs
  | From_Slice SliceGenTensor
  | Assign_Slice bool SliceGenTensor
  | Copy_Slice SliceGenTensor
  | Copy GenTensor

fun construct :: "('a, 's) SepRep_ops \<Rightarrow> deep \<Rightarrow> (GenTensor, 'a, 's) M" where
  "construct ops (From_Tensor rhs eps tt) = GenTensor_Tensor ops rhs eps tt"
| "construct ops (From_Tensor_args rhs args) = GenTensor_Tensor_args ops rhs args"
| "construct ops (From_Slice rhs) = GenTensor_Slice ops rhs"
| "construct ops (Assign_Slice views_this rhs) = GenTensor_operator_assign_Slice ops views_this rhs"
| "construct ops (Copy_Slice rhs) = copy_SliceGenTensor ops rhs"
| "construct ops (Copy rhs) = copy_GenTensor ops rhs"

text \<open>
  The bookkeeping for effects.  \<open>touches no nb A Q h g\<close>: the backend of \<open>g\<close> exists and
  is one of the objects \<open>A\<close> or an object at or above \<open>no\<close>, and the buffer of its dense
  array is one of \<open>Q\<close> or at or above \<open>nb\<close>.  \<open>step no nb A Q h h'\<close>: from \<open>h\<close> to \<open>h'\<close> nothing
  was removed, every \<^verbatim>\<open>FullTensor\<close> object is the same and every \<^verbatim>\<open>LowRankTensor\<close>
  still is one, and below \<open>no\<close> and \<open>nb\<close> only the objects \<open>A\<close> and the buffers \<open>Q\<close> may
  differ.
\<close>

definition touches ::
  "nat \<Rightarrow> nat \<Rightarrow> addr set \<Rightarrow> addr set \<Rightarrow> ('a, 's) heap \<Rightarrow> GenTensor \<Rightarrow> bool" where
  "touches no nb A Q h g =
     (case g of
        None \<Rightarrow> True
      | Some a \<Rightarrow> a < length (objs h) \<and> (a \<in> A \<or> no \<le> a) \<and>
          (case objs h ! a of
             FullTensor t \<Rightarrow>
               (case t_p t of None \<Rightarrow> True | Some q \<Rightarrow> q < length (bufs h) \<and> (q \<in> Q \<or> nb \<le> q))
           | LowRankTensor d \<Rightarrow> True))"

definition step ::
  "nat \<Rightarrow> nat \<Rightarrow> addr set \<Rightarrow> addr set \<Rightarrow> ('a, 's) heap \<Rightarrow> ('a, 's) heap \<Rightarrow> bool" where
  "step no nb A Q h h' =
     (length (objs h) \<le> length (objs h') \<and> length (bufs h) \<le> length (bufs h') \<and>
      (\<forall>a<length (objs h).
         (case objs h ! a of
            FullTensor t \<Rightarrow> objs h' ! a = FullTensor t
          | LowRankTensor d \<Rightarrow> (\<exists>d'. objs h' ! a = LowRankTensor d')) \<and>
         (a \<notin> A \<and> a < no \<longrightarrow> objs h' ! a = objs h ! a)) \<and>
      (\<forall>q<length (bufs h). q \<notin> Q \<and> q < nb \<longrightarrow> bufs h' ! q = bufs h ! q))"

text \<open>A computation keeps within the bounds when the heap it leaves is a \<open>step\<close> away.\<close>

definition steps ::
  "nat \<Rightarrow> nat \<Rightarrow> addr set \<Rightarrow> addr set \<Rightarrow> ('r, 'a, 's) M \<Rightarrow> ('a, 's) heap \<Rightarrow> bool" where
  "steps no nb A Q m h = step no nb A Q h (snd (m h))"

text \<open>
  What a deep construction leaves: the heap \<open>h1\<close> is \<open>h\<close> with objects and buffers
  appended, and the backend of the handle \<open>g\<close>, if it has one, is the first appended
  object and the buffer of its dense array an appended buffer.
\<close>

definition appended :: "('a, 's) heap \<Rightarrow> ('a, 's) heap \<Rightarrow> GenTensor \<Rightarrow> bool" where
  "appended h h1 g =
     ((\<exists>os. objs h1 = objs h @ os) \<and> (\<exists>bs. bufs h1 = bufs h @ bs) \<and>
      (g = None \<or> g = Some (length (objs h))) \<and>
      touches (length (objs h)) (length (bufs h)) {} {} h1 g)"

text \<open>The buffers a handle's dense array points into (none or one).\<close>

definition GenTensor_bufs :: "('a, 's) heap \<Rightarrow> GenTensor \<Rightarrow> addr set" where
  "GenTensor_bufs h g =
     (case g of
        None \<Rightarrow> {}
      | Some a \<Rightarrow> (case objs h ! a of FullTensor t \<Rightarrow> set_option (t_p t) | LowRankTensor d \<Rightarrow> {}))"

section \<open>A concrete heap\<close>

text \<open>
  The heap the theorems are instantiated on: the buffer \<open>[1, 2, 3, 4]\<close>, a \<^verbatim>\<open>FullTensor\<close>
  (address 0) whose tensor is the one-dimensional array of extent 4 over that buffer, and
  a valid \<^verbatim>\<open>LowRankTensor\<close> of kind \<^verbatim>\<open>TT_3D\<close> (address 1) of the exact engine.
\<close>

definition example_heap :: "(int, int exact) heap" where
  "example_heap =
     \<lparr>bufs = [[1, 2, 3, 4]],
      objs = [FullTensor \<lparr>t_p = Some 0, t_off = 0, t_dim = [4], t_stride = [1]\<rparr>,
              LowRankTensor (TT_3D, Some ([4], [1, 0, 0, 2]))]\<rparr>"

text \<open>
  The same heap after \<^verbatim>\<open>to_low_rank\<close> has converted the dense handle to the kind \<^verbatim>\<open>TT_2D\<close>
  with accuracy 1: the new \<^verbatim>\<open>LowRankTensor\<close> (address 2) holds the factorization of
  \<open>[1, 2, 3, 4]\<close>.
\<close>

definition example_heap_2D :: "(int, int exact) heap" where
  "example_heap_2D =
     example_heap\<lparr>objs := objs example_heap @ [LowRankTensor (TT_2D, Some ([4], [1, 2, 3, 4]))]\<rparr>"

section \<open>Running computations\<close>

lemmas run = bind_def return_def throw_def MADNESS_ASSERT_def MADNESS_ASSERT_0_def deref_def
  new_obj_def set_obj_def new_buf_def

text \<open>A contiguous tensor's positions are a range; a strided view has one per index.\<close>

lemma concat_blocks:
  "concat (map (\<lambda>i. [off + i * p..<off + i * p + p]) [0..<d]) = [off..<off + d * p]"
proof (induction d)
  case 0
  then show ?case by simp
next
  case (Suc d)
  have "[off..<off + d * p + p] = [off..<off + d * p] @ [off + d * p..<off + d * p + p]"
    by (metis le_add1 upt_add_eq_append)
  with Suc show ?case by (simp add: add.commute add.left_commute)
qed

lemma positions_row_major: "positions ds (row_major ds) off = [off..<off + prod_list ds]"
proof (induction ds arbitrary: off)
  case Nil
  then show ?case by simp
next
  case (Cons d ds)
  then show ?case using concat_blocks [of off "prod_list ds" d] by simp
qed

lemma length_positions:
  "length ss = length ds \<Longrightarrow> length (positions ds ss off) = prod_list ds"
proof (induction ds arbitrary: ss off)
  case Nil
  then show ?case by simp
next
  case (Cons d ds)
  then obtain k ks where ss: "ss = k # ks" "length ks = length ds"
    by (cases ss) auto
  have "length (concat (map (\<lambda>i. positions ds ks (off + i * k)) [0..<d])) =
        sum_list (map (\<lambda>i. prod_list ds) [0..<d])"
    using Cons.IH [OF ss(2)] by (simp add: length_concat comp_def)
  then show ?case by (simp add: ss sum_list_triv)
qed

lemma Tensor_elems_fresh:
  assumes "q < length (bufs h)" and "length (bufs h ! q) = prod_list ds"
  shows "Tensor_elems h \<lparr>t_p = Some q, t_off = 0, t_dim = ds, t_stride = row_major ds\<rparr> = bufs h ! q"
  using assms map_nth [of "bufs h ! q"]
  by (simp add: Tensor_elems_def Tensor_positions_def positions_row_major)

lemma length_Tensor_elems:
  "Tensor_ok h t \<Longrightarrow> t_p t = Some q \<Longrightarrow> length (Tensor_elems h t) = prod_list (t_dim t)"
  by (simp add: Tensor_ok_def Tensor_elems_def Tensor_positions_def length_positions)

lemma Tensor_copy_run:
  "Tensor_copy t h =
     (case t_p t of
        None \<Rightarrow> (Inr Tensor_default, h)
      | Some q \<Rightarrow> (Inr \<lparr>t_p = Some (length (bufs h)), t_off = 0, t_dim = t_dim t,
                          t_stride = row_major (t_dim t)\<rparr>,
                   h\<lparr>bufs := bufs h @ [Tensor_elems h t]\<rparr>))"
  by (simp add: Tensor_copy_def run split: option.splits)

text \<open>Scaling a tensor that owns its buffer maps over the buffer.\<close>

lemma fold_set_elem:
  assumes "q < length bs" and "n \<le> length (bs ! q)"
  shows "fold (\<lambda>i bs. set_elem q i (f (bs ! q ! i)) bs) [0..<n] bs =
         bs[q := map f (take n (bs ! q)) @ drop n (bs ! q)]"
  using assms(2)
proof (induction n)
  case 0
  then show ?case by simp
next
  case (Suc n)
  then have n: "n < length (bs ! q)" by simp
  have "(map f (take n (bs ! q)) @ drop n (bs ! q))[n := f (bs ! q ! n)] =
        map f (take (Suc n) (bs ! q)) @ drop (Suc n) (bs ! q)"
    using n by (simp add: take_Suc_conv_app_nth list_update_append Cons_nth_drop_Suc [symmetric])
  with Suc n assms(1) show ?case
    by (simp add: set_elem_def nth_append)
qed

lemma Tensor_scale_owned:
  assumes "q < length (bufs h)" and "length (bufs h ! q) = prod_list ds"
  shows "Tensor_scale \<lparr>t_p = Some q, t_off = 0, t_dim = ds, t_stride = row_major ds\<rparr> x h =
         (Inr (), h\<lparr>bufs := (bufs h)[q := map (\<lambda>v. v * x) (bufs h ! q)]\<rparr>)"
  using assms fold_set_elem [of q "bufs h" "prod_list ds" "\<lambda>v. v * x"]
  by (simp add: Tensor_scale_def Tensor_unary_def Tensor_positions_def positions_row_major)

section \<open>Effects\<close>

text \<open>Steps compose, and a handle within the bounds stays within them.\<close>

lemma step_refl: "step no nb A Q h h"
  by (auto simp: step_def split: SepRepTensor.splits)

lemma step_trans:
  assumes "step no nb A Q h h1" and "step no nb A Q h1 h2"
  shows "step no nb A Q h h2"
  unfolding step_def
proof (intro conjI allI impI)
  show "length (objs h) \<le> length (objs h2)" "length (bufs h) \<le> length (bufs h2)"
    using assms by (auto simp: step_def)
next
  fix a assume a: "a < length (objs h)"
  then have a1: "a < length (objs h1)" using assms(1) by (auto simp: step_def)
  from assms(1) a have s1: "case objs h ! a of
            FullTensor t \<Rightarrow> objs h1 ! a = FullTensor t
          | LowRankTensor d \<Rightarrow> (\<exists>d'. objs h1 ! a = LowRankTensor d')"
    and u1: "a \<notin> A \<and> a < no \<longrightarrow> objs h1 ! a = objs h ! a"
    by (auto simp: step_def)
  from assms(2) a1 have s2: "case objs h1 ! a of
            FullTensor t \<Rightarrow> objs h2 ! a = FullTensor t
          | LowRankTensor d \<Rightarrow> (\<exists>d'. objs h2 ! a = LowRankTensor d')"
    and u2: "a \<notin> A \<and> a < no \<longrightarrow> objs h2 ! a = objs h1 ! a"
    by (auto simp: step_def)
  from s1 s2 show "case objs h ! a of
            FullTensor t \<Rightarrow> objs h2 ! a = FullTensor t
          | LowRankTensor d \<Rightarrow> (\<exists>d'. objs h2 ! a = LowRankTensor d')"
    by (auto split: SepRepTensor.splits)
  from u1 u2 show "a \<notin> A \<and> a < no \<Longrightarrow> objs h2 ! a = objs h ! a" by simp
next
  fix q assume q: "q < length (bufs h)" and nq: "q \<notin> Q \<and> q < nb"
  then have "q < length (bufs h1)" using assms(1) by (auto simp: step_def)
  with assms q nq show "bufs h2 ! q = bufs h ! q" by (auto simp: step_def)
qed

lemma touches_step:
  assumes "touches no nb A Q h g" and "step no nb A Q h h'"
  shows "touches no nb A Q h' g"
proof (cases g)
  case None
  then show ?thesis by (simp add: touches_def)
next
  case (Some a)
  with assms(1) have a: "a < length (objs h)" "a \<in> A \<or> no \<le> a" by (auto simp: touches_def)
  from assms(2) a have s: "case objs h ! a of
            FullTensor t \<Rightarrow> objs h' ! a = FullTensor t
          | LowRankTensor d \<Rightarrow> (\<exists>d'. objs h' ! a = LowRankTensor d')"
    and l: "length (objs h) \<le> length (objs h')" "length (bufs h) \<le> length (bufs h')"
    by (auto simp: step_def)
  show ?thesis
  proof (cases "objs h ! a")
    case (FullTensor t)
    with s have "objs h' ! a = FullTensor t" by simp
    with assms(1) Some FullTensor a l show ?thesis
      by (auto simp: touches_def split: option.splits)
  next
    case (LowRankTensor d)
    with s obtain d' where "objs h' ! a = LowRankTensor d'" by auto
    with Some a l show ?thesis by (auto simp: touches_def)
  qed
qed

lemma steps_I: "m h = (r, h') \<Longrightarrow> step no nb A Q h h' \<Longrightarrow> steps no nb A Q m h"
  by (simp add: steps_def)

lemma steps_D: "steps no nb A Q m h \<Longrightarrow> m h = (r, h') \<Longrightarrow> step no nb A Q h h'"
  by (simp add: steps_def)

lemma steps_bind:
  assumes "steps no nb A Q m h"
    and "\<And>x h1. m h = (Inr x, h1) \<Longrightarrow> steps no nb A Q (f x) h1"
  shows "steps no nb A Q (bind m f) h"
proof (cases "m h")
  case (Pair r h1)
  with assms(1) have s1: "step no nb A Q h h1" by (simp add: steps_def)
  show ?thesis
  proof (cases r)
    case (Inl e)
    with Pair s1 show ?thesis by (simp add: steps_def bind_def)
  next
    case (Inr x)
    with Pair assms(2) have "step no nb A Q h1 (snd (f x h1))" by (simp add: steps_def)
    with s1 have "step no nb A Q h (snd (f x h1))" by (rule step_trans)
    with Pair Inr show ?thesis by (simp add: steps_def bind_def)
  qed
qed

lemma steps_pure:
  assumes "snd (m h) = h"
  shows "steps no nb A Q m h"
  using assms by (simp add: steps_def step_refl)

lemma steps_return [simp]: "steps no nb A Q (return x) h"
  by (rule steps_pure) (simp add: run)

lemma steps_throw [simp]: "steps no nb A Q (throw e) h"
  by (rule steps_pure) (simp add: run)

lemma steps_MADNESS_ASSERT [simp]: "steps no nb A Q (MADNESS_ASSERT c) h"
  by (rule steps_pure) (simp add: run)

lemma steps_deref [simp]: "steps no nb A Q (deref p) h"
  by (rule steps_pure) (simp add: run split: option.splits)

lemma steps_new_obj [simp]: "steps no nb A Q (new_obj b) h"
  by (auto simp: steps_def step_def run nth_append split: SepRepTensor.splits)

lemma steps_new_buf [simp]: "steps no nb A Q (new_buf xs) h"
  by (auto simp: steps_def step_def run nth_append split: SepRepTensor.splits)

lemma steps_set_obj:
  assumes "a < length (objs h)" and "objs h ! a = LowRankTensor d" and "a \<in> A \<or> no \<le> a"
  shows "steps no nb A Q (set_obj a (LowRankTensor d')) h"
  using assms
  by (auto simp: steps_def step_def run nth_list_update split: SepRepTensor.splits)

lemma fold_frame:
  assumes "\<And>x bs. length (g x bs) = length bs \<and> (\<forall>q'. q' \<noteq> q \<longrightarrow> g x bs ! q' = bs ! q')"
  shows "length (fold g xs bs) = length bs \<and> (\<forall>q'. q' \<noteq> q \<longrightarrow> fold g xs bs ! q' = bs ! q')"
proof (induction xs arbitrary: bs)
  case Nil
  then show ?case by simp
next
  case (Cons x xs)
  from Cons [of "g x bs"] assms [of x bs] show ?case by simp
qed

lemma set_elem_frame:
  "length (set_elem q i v bs) = length bs \<and> (\<forall>q'. q' \<noteq> q \<longrightarrow> set_elem q i v bs ! q' = bs ! q')"
  by (simp add: set_elem_def)

lemma steps_bufs:
  assumes "m h = (r, h\<lparr>bufs := bs\<rparr>)" and "length bs = length (bufs h)"
    and "\<forall>q'. q' \<noteq> q \<longrightarrow> bs ! q' = bufs h ! q'" and "q \<in> Q \<or> nb \<le> q"
  shows "steps no nb A Q m h"
  using assms by (auto simp: steps_def step_def split: SepRepTensor.splits)

lemma steps_Tensor_unary:
  assumes "case t_p t of None \<Rightarrow> True | Some q \<Rightarrow> q \<in> Q \<or> nb \<le> q"
  shows "steps no nb A Q (Tensor_unary f t) h"
proof (cases "t_p t")
  case None
  then show ?thesis by (simp add: steps_pure Tensor_unary_def)
next
  case (Some q)
  let ?bs = "fold (\<lambda>i bs. set_elem q i (f (bs ! q ! i)) bs) (Tensor_positions t) (bufs h)"
  have fr: "length ?bs = length (bufs h) \<and> (\<forall>q'. q' \<noteq> q \<longrightarrow> ?bs ! q' = bufs h ! q')"
    by (rule fold_frame) (rule set_elem_frame)
  have "Tensor_unary f t h = (Inr (), h\<lparr>bufs := ?bs\<rparr>)"
    using Some by (simp add: Tensor_unary_def)
  then show ?thesis using fr assms Some by (auto intro: steps_bufs)
qed

lemma steps_Tensor_binary:
  assumes "case t_p l of None \<Rightarrow> True | Some q \<Rightarrow> q \<in> Q \<or> nb \<le> q"
  shows "steps no nb A Q (Tensor_binary f l r) h"
proof (cases "Tensor_conforms l r")
  case False
  then show ?thesis by (simp add: steps_pure Tensor_binary_def)
next
  case True
  show ?thesis
  proof (cases "t_p l")
    case None
    then show ?thesis using True by (simp add: steps_pure Tensor_binary_def)
  next
    case (Some q)
    show ?thesis
    proof (cases "t_p r")
      case None
      then show ?thesis using True Some by (simp add: steps_pure Tensor_binary_def)
    next
      case (Some qr)
      let ?bs = "fold (\<lambda>(i, j) bs. set_elem q i (f (bs ! q ! i) (bs ! qr ! j)) bs)
                   (zip (Tensor_positions l) (Tensor_positions r)) (bufs h)"
      have fr: "length ?bs = length (bufs h) \<and> (\<forall>q'. q' \<noteq> q \<longrightarrow> ?bs ! q' = bufs h ! q')"
        by (rule fold_frame) (auto simp: set_elem_frame)
      have "Tensor_binary f l r h = (Inr (), h\<lparr>bufs := ?bs\<rparr>)"
        using True Some \<open>t_p l = Some q\<close> by (simp add: Tensor_binary_def)
      then show ?thesis using fr assms \<open>t_p l = Some q\<close> by (auto intro: steps_bufs)
    qed
  qed
qed

lemma Tensor_slice_pure: "snd (Tensor_slice t s h) = h"
  by (simp add: Tensor_slice_def run split: option.splits prod.splits)

lemma Tensor_slice_p: "Tensor_slice t s h = (Inr v, h') \<Longrightarrow> t_p v = t_p t"
  by (auto simp: Tensor_slice_def run split: option.splits prod.splits)

lemma steps_Tensor_copy [simp]: "steps no nb A Q (Tensor_copy t) h"
  by (auto simp: steps_def step_def Tensor_copy_run nth_append split: option.splits SepRepTensor.splits)


lemma steps_bind_pure:
  assumes "snd (m h) = h" and "\<And>x. m h = (Inr x, h) \<Longrightarrow> steps no nb A Q (f x) h"
  shows "steps no nb A Q (bind m f) h"
proof (rule steps_bind)
  show "steps no nb A Q m h" using assms(1) by (rule steps_pure)
next
  fix x h1 assume "m h = (Inr x, h1)"
  with assms(1) have "m h = (Inr x, h)" by (cases "m h") simp
  with assms(2) \<open>m h = (Inr x, h1)\<close> show "steps no nb A Q (f x) h1" by simp
qed

lemma pure_simps [simp]:
  "snd (return x h) = h"
  "snd (throw e h) = h"
  "snd (MADNESS_ASSERT c h) = h"
  "snd (deref p h) = h"
  "snd (cast_FullTensor p h) = h"
  "snd (cast_LowRankTensor p h) = h"
  "snd (vector_Slice n h) = h"
  "snd (Tensor_slice t s h) = h"
  "snd (GenTensor_ndim ops g h) = h"
  "snd (GenTensor_type ops g h) = h"
  by (auto simp: run cast_FullTensor_def cast_LowRankTensor_def vector_Slice_def
      Tensor_slice_def GenTensor_ndim_def GenTensor_type_def
      split: option.splits prod.splits SepRepTensor.splits)

lemma deref_D: "deref p h = (Inr b, h1) \<Longrightarrow> \<exists>a. p = Some a \<and> b = objs h ! a"
  by (auto simp: run split: option.splits)

lemma cast_FullTensor_D:
  "cast_FullTensor p h = (Inr t, h1) \<Longrightarrow> \<exists>a. p = Some a \<and> objs h ! a = FullTensor t"
  by (auto simp: cast_FullTensor_def run split: option.splits SepRepTensor.splits)

lemma cast_LowRankTensor_D:
  "cast_LowRankTensor p h = (Inr d, h1) \<Longrightarrow> \<exists>a. p = Some a \<and> objs h ! a = LowRankTensor d"
  by (auto simp: cast_LowRankTensor_def run split: option.splits SepRepTensor.splits)

lemma touches_addr:
  "touches no nb A Q h (Some a) \<Longrightarrow> a < length (objs h) \<and> (a \<in> A \<or> no \<le> a)"
  by (simp add: touches_def)

lemma touches_Full:
  "touches no nb A Q h (Some a) \<Longrightarrow> objs h ! a = FullTensor t \<Longrightarrow>
   (case t_p t of None \<Rightarrow> True | Some q \<Rightarrow> q \<in> Q \<or> nb \<le> q)"
  by (auto simp: touches_def split: option.splits)

text \<open>The members of the two variants, for an object the bounds allow to change.\<close>

lemma steps_FullTensor_gaxpy:
  assumes "case t_p data of None \<Rightarrow> True | Some q \<Rightarrow> q \<in> Q \<or> nb \<le> q"
  shows "steps no nb A Q (FullTensor_gaxpy ops data alpha rhs beta) h"
  unfolding FullTensor_gaxpy_def Tensor_gaxpy_def
  by (intro steps_bind_pure steps_Tensor_binary assms) simp_all

lemma steps_FullTensor_update_by:
  assumes "case t_p data of None \<Rightarrow> True | Some q \<Rightarrow> q \<in> Q \<or> nb \<le> q"
  shows "steps no nb A Q (FullTensor_update_by ops data rhs) h"
  unfolding FullTensor_update_by_def Tensor_plus_eq_def
  by (intro steps_bind_pure steps_Tensor_binary assms) simp_all

lemma steps_FullTensor_inplace_add:
  assumes "case t_p data of None \<Rightarrow> True | Some q \<Rightarrow> q \<in> Q \<or> nb \<le> q"
  shows "steps no nb A Q (FullTensor_inplace_add ops data rhs lhs_s rhs_s) h"
  unfolding FullTensor_inplace_add_def Tensor_plus_eq_def
proof (intro steps_bind_pure steps_Tensor_binary)
  fix x xa xb xc xd
  assume "Tensor_slice data lhs_s h = (Inr xc, h)"
  then have "t_p xc = t_p data" by (rule Tensor_slice_p)
  with assms show "case t_p xc of None \<Rightarrow> True | Some q \<Rightarrow> q \<in> Q \<or> nb \<le> q" by simp
qed simp_all

lemma steps_LowRankTensor_gaxpy:
  assumes "a < length (objs h)" and "objs h ! a = LowRankTensor d" and "a \<in> A \<or> no \<le> a"
  shows "steps no nb A Q (LowRankTensor_gaxpy ops a d alpha rhs beta) h"
  unfolding LowRankTensor_gaxpy_def
  by (intro steps_bind_pure steps_set_obj [OF assms]) simp_all

lemma steps_LowRankTensor_inplace_add:
  assumes "a < length (objs h)" and "objs h ! a = LowRankTensor d" and "a \<in> A \<or> no \<le> a"
  shows "steps no nb A Q (LowRankTensor_inplace_add ops a d rhs lhs_s rhs_s) h"
  unfolding LowRankTensor_inplace_add_def
  by (intro steps_bind_pure steps_set_obj [OF assms]) simp_all

lemma steps_LowRankTensor_update_by:
  assumes "a < length (objs h)" and "objs h ! a = LowRankTensor d" and "a \<in> A \<or> no \<le> a"
  shows "steps no nb A Q (LowRankTensor_update_by ops a d rhs) h"
  unfolding LowRankTensor_update_by_def
  by (intro steps_bind_pure steps_set_obj [OF assms]) simp_all

text \<open>The virtual calls through a handle within the bounds.\<close>

lemma steps_SepRepTensor_scale:
  assumes "touches no nb A Q h this"
  shows "steps no nb A Q (SepRepTensor_scale ops this x) h"
proof (cases this)
  case None
  then show ?thesis by (simp add: SepRepTensor_scale_def)
next
  case (Some a)
  note t = assms [unfolded Some]
  show ?thesis
  proof (cases "objs h ! a")
    case (FullTensor data)
    have "SepRepTensor_scale ops this x h = Tensor_unary (\<lambda>v. v * x) data h"
      using Some FullTensor by (simp add: SepRepTensor_scale_def Tensor_scale_def run)
    then show ?thesis
      using steps_Tensor_unary [OF touches_Full [OF t FullTensor], of no A "\<lambda>v. v * x" h]
      by (simp add: steps_def)
  next
    case (LowRankTensor d)
    have "SepRepTensor_scale ops this x h = set_obj a (LowRankTensor (sr_scale ops d x)) h"
      using Some LowRankTensor by (simp add: SepRepTensor_scale_def run)
    then show ?thesis
      using steps_set_obj [of a h d A no nb Q "sr_scale ops d x"] touches_addr [OF t] LowRankTensor
      by (simp add: steps_def)
  qed
qed


lemma steps_virtual:
  assumes "touches no nb A Q h this"
    and "\<And>a data. this = Some a \<Longrightarrow> objs h ! a = FullTensor data \<Longrightarrow>
           (case t_p data of None \<Rightarrow> True | Some q \<Rightarrow> q \<in> Q \<or> nb \<le> q) \<Longrightarrow>
           steps no nb A Q (f a (FullTensor data)) h"
    and "\<And>a d. this = Some a \<Longrightarrow> objs h ! a = LowRankTensor d \<Longrightarrow> a < length (objs h) \<Longrightarrow>
           a \<in> A \<or> no \<le> a \<Longrightarrow> steps no nb A Q (f a (LowRankTensor d)) h"
  shows "steps no nb A Q (case this of None \<Rightarrow> throw NullPointer
                          | Some a \<Rightarrow> bind (deref (Some a)) (f a)) h"
proof (cases this)
  case None
  then show ?thesis by simp
next
  case (Some a)
  note t = assms(1) [unfolded Some]
  have "steps no nb A Q (f a (objs h ! a)) h"
  proof (cases "objs h ! a")
    case (FullTensor data)
    with assms(2) [OF Some FullTensor touches_Full [OF t FullTensor]] show ?thesis by simp
  next
    case (LowRankTensor d)
    with assms(3) [OF Some LowRankTensor] touches_addr [OF t] show ?thesis by simp
  qed
  then show ?thesis using Some by (simp add: steps_def run)
qed

lemma steps_SepRepTensor_gaxpy:
  assumes "touches no nb A Q h this"
  shows "steps no nb A Q (SepRepTensor_gaxpy ops this alpha rhs beta) h"
  unfolding SepRepTensor_gaxpy_def
  by (rule steps_virtual [OF assms])
    (simp_all add: steps_FullTensor_gaxpy steps_LowRankTensor_gaxpy)

lemma steps_SepRepTensor_inplace_add:
  assumes "touches no nb A Q h this"
  shows "steps no nb A Q (SepRepTensor_inplace_add ops this rhs lhs_s rhs_s) h"
  unfolding SepRepTensor_inplace_add_def
  by (rule steps_virtual [OF assms])
    (simp_all add: steps_FullTensor_inplace_add steps_LowRankTensor_inplace_add)

lemma steps_SepRepTensor_update_by:
  assumes "touches no nb A Q h this"
  shows "steps no nb A Q (SepRepTensor_update_by ops this rhs) h"
  unfolding SepRepTensor_update_by_def
  by (rule steps_virtual [OF assms])
    (simp_all add: steps_FullTensor_update_by steps_LowRankTensor_update_by)

lemma steps_SepRepTensor_finalize_accumulate:
  assumes "touches no nb A Q h this"
  shows "steps no nb A Q (SepRepTensor_finalize_accumulate ops this) h"
  unfolding SepRepTensor_finalize_accumulate_def
  by (rule steps_virtual [OF assms]) (simp_all add: steps_set_obj)

lemma steps_SepRepTensor_reduceRank:
  assumes "touches no nb A Q h this"
  shows "steps no nb A Q (SepRepTensor_reduceRank ops this eps) h"
  unfolding SepRepTensor_reduceRank_def
  by (rule steps_virtual [OF assms]) (simp_all add: steps_set_obj)

lemma steps_FullTensor_accumulate_into:
  assumes "touches no nb A Q h t"
  shows "steps no nb A Q (FullTensor_accumulate_into ops data t fac) h"
  unfolding FullTensor_accumulate_into_def Tensor_gaxpy_def
proof (intro steps_bind_pure steps_Tensor_binary)
  fix x xa xb
  assume "cast_FullTensor t h = (Inr xb, h)"
  then obtain a where "t = Some a" "objs h ! a = FullTensor xb"
    by (auto dest: cast_FullTensor_D)
  with assms show "case t_p xb of None \<Rightarrow> True | Some q \<Rightarrow> q \<in> Q \<or> nb \<le> q"
    by (auto dest: touches_Full)
qed simp_all

lemma steps_LowRankTensor_accumulate_into:
  assumes "touches no nb A Q h t"
  shows "steps no nb A Q (LowRankTensor_accumulate_into ops data t fac) h"
proof (cases t)
  case None
  then show ?thesis by (simp add: LowRankTensor_accumulate_into_def)
next
  case (Some a)
  have "steps no nb A Q (bind (cast_LowRankTensor (Some a))
          (\<lambda>other. set_obj a (LowRankTensor (sr_accumulate_into ops data other fac)))) h"
  proof (intro steps_bind_pure)
    fix other
    assume "cast_LowRankTensor (Some a) h = (Inr other, h)"
    then have "objs h ! a = LowRankTensor other" by (auto dest: cast_LowRankTensor_D)
    with touches_addr [OF assms [unfolded Some]]
    show "steps no nb A Q (set_obj a (LowRankTensor (sr_accumulate_into ops data other fac))) h"
      by (intro steps_set_obj) auto
  qed simp
  with Some show ?thesis by (simp add: LowRankTensor_accumulate_into_def)
qed

lemma steps_SepRepTensor_accumulate_into:
  assumes "touches no nb A Q h t"
  shows "steps no nb A Q (SepRepTensor_accumulate_into ops p t fac) h"
  unfolding SepRepTensor_accumulate_into_def
  by (intro steps_bind_pure)
    (auto split: SepRepTensor.splits
      intro: steps_FullTensor_accumulate_into steps_LowRankTensor_accumulate_into assms)

text \<open>The in-place members of the handle and of its slice proxy, but the zeroing.\<close>

lemma steps_GenTensor_scale:
  assumes "touches no nb A Q h this"
  shows "steps no nb A Q (GenTensor_scale ops this x) h"
  using steps_SepRepTensor_scale [OF assms]
  by (cases this) (simp_all add: GenTensor_scale_def)

lemma steps_GenTensor_operator_plus_eq:
  assumes "touches no nb A Q h this"
  shows "steps no nb A Q (GenTensor_operator_plus_eq ops this rhs) h"
  unfolding GenTensor_operator_plus_eq_def GenTensor_accumulate_into_def
  by (intro steps_bind_pure steps_SepRepTensor_accumulate_into assms) simp_all

lemma steps_GenTensor_operator_plus_eq_Slice:
  assumes "touches no nb A Q h this"
  shows "steps no nb A Q (GenTensor_operator_plus_eq_Slice ops this rhs) h"
  unfolding GenTensor_operator_plus_eq_Slice_def
  by (intro steps_bind_pure steps_SepRepTensor_inplace_add assms) simp_all

lemma steps_SliceGenTensor_operator_plus_eq:
  assumes "touches no nb A Q h (sgt_refGT this)"
  shows "steps no nb A Q (SliceGenTensor_operator_plus_eq ops this rhs) h"
  unfolding SliceGenTensor_operator_plus_eq_def GenTensor_inplace_add_def
  by (intro steps_bind_pure steps_SepRepTensor_inplace_add assms) simp_all


lemma appended_copy_this:
  "SepRepTensor_copy_this ops p h = (Inr a, h1) \<Longrightarrow> appended h h1 (Some a)"
  by (auto simp: SepRepTensor_copy_this_def FullTensor_copy_this_def run Tensor_copy_run
      Tensor_default_def appended_def touches_def nth_append
      split: option.splits SepRepTensor.splits if_splits)

lemma appended_clone_s:
  "SepRepTensor_clone_s ops p s h = (Inr a, h1) \<Longrightarrow> appended h h1 (Some a)"
  by (auto simp: SepRepTensor_clone_s_def FullTensor_clone_s_def run Tensor_copy_run
      Tensor_slice_def Tensor_default_def appended_def touches_def nth_append
      split: option.splits SepRepTensor.splits if_splits prod.splits)

lemma appended_GenTensor_Tensor:
  "GenTensor_Tensor ops rhs eps tt h = (Inr g, h1) \<Longrightarrow> appended h h1 g"
  by (auto simp: GenTensor_Tensor_def LowRankTensor_Tensor_def run Tensor_copy_run
      Tensor_default_def appended_def touches_def nth_append
      split: option.splits SepRepTensor.splits if_splits)

lemma appended_construct:
  "construct ops c h = (Inr g, h1) \<Longrightarrow> appended h h1 g"
proof (cases c)
  case (From_Tensor rhs eps tt)
  assume "construct ops c h = (Inr g, h1)"
  with From_Tensor show ?thesis by (simp add: appended_GenTensor_Tensor)
next
  case (From_Tensor_args rhs args)
  assume "construct ops c h = (Inr g, h1)"
  with From_Tensor_args have "GenTensor_Tensor ops rhs (args_thresh args) (args_tt args) h = (Inr g, h1)"
    by (simp add: GenTensor_Tensor_args_def GenTensor_Tensor_def)
  then show ?thesis by (rule appended_GenTensor_Tensor)
next
  case (From_Slice rhs)
  assume "construct ops c h = (Inr g, h1)"
  with From_Slice show ?thesis
    by (auto simp: GenTensor_Slice_def GenTensor_operator_assign_Slice_def run
        split: prod.splits sum.splits dest: appended_clone_s)
next
  case (Assign_Slice views_this rhs)
  assume "construct ops c h = (Inr g, h1)"
  with Assign_Slice show ?thesis
    by (auto simp: GenTensor_operator_assign_Slice_def run
        split: prod.splits sum.splits dest: appended_clone_s)
next
  case (Copy_Slice rhs)
  assume "construct ops c h = (Inr g, h1)"
  with Copy_Slice show ?thesis
    by (auto simp: copy_SliceGenTensor_def GenTensor_Slice_def GenTensor_operator_assign_Slice_def run
        split: prod.splits sum.splits dest: appended_clone_s)
next
  case (Copy rhs)
  assume "construct ops c h = (Inr g, h1)"
  with Copy show ?thesis
    by (cases rhs)
      (auto simp: copy_GenTensor_def GenTensor_sr_def GenTensor_empty_def run appended_def
        touches_def split: prod.splits sum.splits dest: appended_copy_this)
qed


lemma appended_step: "appended h h1 g \<Longrightarrow> step no nb A Q h h1"
  by (auto simp: appended_def step_def nth_append split: SepRepTensor.splits)

lemma touches_mono:
  "touches n m {} {} h g \<Longrightarrow> no \<le> n \<Longrightarrow> nb \<le> m \<Longrightarrow> touches no nb A Q h g"
  by (auto simp: touches_def split: option.splits SepRepTensor.splits)

lemma appended_touches:
  "appended h h1 g \<Longrightarrow> no \<le> length (objs h) \<Longrightarrow> nb \<le> length (bufs h) \<Longrightarrow>
   touches no nb A Q h1 g"
  by (auto simp: appended_def intro: touches_mono)

lemma steps_SepRepTensor_clone_s: "steps no nb A Q (SepRepTensor_clone_s ops p s) h"
  unfolding SepRepTensor_clone_s_def FullTensor_clone_s_def
  by (intro steps_bind) (auto simp: steps_pure split: SepRepTensor.splits intro!: steps_bind)

lemma steps_GenTensor_Slice: "steps no nb A Q (GenTensor_Slice ops rhs) h"
  unfolding GenTensor_Slice_def GenTensor_operator_assign_Slice_def
  by (intro steps_bind steps_SepRepTensor_clone_s) simp

lemma steps_copy_GenTensor: "steps no nb A Q (copy_GenTensor ops rhs) h"
  unfolding copy_GenTensor_def SepRepTensor_copy_this_def FullTensor_copy_this_def
  by (cases rhs) (auto split: SepRepTensor.splits intro!: steps_bind)

lemma steps_slice_zero:
  assumes t: "touches no nb A Q h (sgt_refGT this)"
    and n: "no \<le> length (objs h)" "nb \<le> length (bufs h)"
  shows "steps no nb A Q (SliceGenTensor_operator_assign_number ops this number) h"
  unfolding SliceGenTensor_operator_assign_number_def
proof (rule steps_bind_pure)
  show "snd (MADNESS_ASSERT (number = 0) h) = h" by simp
next
  fix u
  show "steps no nb A Q
     (bind (GenTensor_Slice ops this) (\<lambda>tmp.
      bind (GenTensor_type ops (sgt_refGT this)) (\<lambda>tt.
      bind (if tt = TT_FULL
            then bind (copy_GenTensor ops tmp) (\<lambda>c. return (GenTensor_operator_assign tmp c))
            else return tmp) (\<lambda>tmp.
      bind (GenTensor_scale ops tmp (- 1)) (\<lambda>_.
      GenTensor_inplace_add ops (sgt_refGT this) tmp (sgt_s this) (sgt_s this)))))) h"
  proof (rule steps_bind)
    show "steps no nb A Q (GenTensor_Slice ops this) h" by (rule steps_GenTensor_Slice)
  next
    fix tmp h1
    assume r1: "GenTensor_Slice ops this h = (Inr tmp, h1)"
    then have "construct ops (From_Slice this) h = (Inr tmp, h1)" by simp
    then have ap1: "appended h h1 tmp" by (rule appended_construct)
    have s1: "step no nb A Q h h1" using ap1 by (rule appended_step)
    have t1: "touches no nb A Q h1 (sgt_refGT this)" using t s1 by (rule touches_step)
    have tt1: "touches no nb A Q h1 tmp" using ap1 n by (rule appended_touches)
    have n1: "no \<le> length (objs h1)" "nb \<le> length (bufs h1)"
      using s1 n by (auto simp: step_def)
    show "steps no nb A Q
      (bind (GenTensor_type ops (sgt_refGT this)) (\<lambda>tt.
       bind (if tt = TT_FULL
             then bind (copy_GenTensor ops tmp) (\<lambda>c. return (GenTensor_operator_assign tmp c))
             else return tmp) (\<lambda>tmp.
       bind (GenTensor_scale ops tmp (- 1)) (\<lambda>_.
       GenTensor_inplace_add ops (sgt_refGT this) tmp (sgt_s this) (sgt_s this))))) h1"
    proof (rule steps_bind_pure)
      show "snd (GenTensor_type ops (sgt_refGT this) h1) = h1" by simp
    next
      fix tt
      show "steps no nb A Q
        (bind (if tt = TT_FULL
               then bind (copy_GenTensor ops tmp) (\<lambda>c. return (GenTensor_operator_assign tmp c))
               else return tmp) (\<lambda>tmp.
         bind (GenTensor_scale ops tmp (- 1)) (\<lambda>_.
         GenTensor_inplace_add ops (sgt_refGT this) tmp (sgt_s this) (sgt_s this)))) h1"
      proof (rule steps_bind)
        show "steps no nb A Q
          (if tt = TT_FULL
           then bind (copy_GenTensor ops tmp) (\<lambda>c. return (GenTensor_operator_assign tmp c))
           else return tmp) h1"
          by (auto intro!: steps_bind steps_copy_GenTensor)
      next
        fix tmp' h2
        assume r2: "(if tt = TT_FULL
           then bind (copy_GenTensor ops tmp) (\<lambda>c. return (GenTensor_operator_assign tmp c))
           else return tmp) h1 = (Inr tmp', h2)"
        have "step no nb A Q h1 h2 \<and> touches no nb A Q h2 tmp'"
        proof (cases "tt = TT_FULL")
          case False
          with r2 tt1 show ?thesis by (simp add: run step_refl)
        next
          case True
          with r2 have "copy_GenTensor ops tmp h1 = (Inr tmp', h2)"
            by (auto simp: run GenTensor_operator_assign_def split: prod.splits sum.splits)
          then have "construct ops (Copy tmp) h1 = (Inr tmp', h2)" by simp
          then have "appended h1 h2 tmp'" by (rule appended_construct)
          then show ?thesis using n1 by (auto intro: appended_step appended_touches)
        qed
        then have s2: "step no nb A Q h1 h2" and tt2: "touches no nb A Q h2 tmp'" by simp_all
        have t2: "touches no nb A Q h2 (sgt_refGT this)" using t1 s2 by (rule touches_step)
        show "steps no nb A Q
          (bind (GenTensor_scale ops tmp' (- 1)) (\<lambda>_.
           GenTensor_inplace_add ops (sgt_refGT this) tmp' (sgt_s this) (sgt_s this))) h2"
        proof (rule steps_bind)
          show "steps no nb A Q (GenTensor_scale ops tmp' (- 1)) h2"
            using tt2 by (rule steps_GenTensor_scale)
        next
          fix x h3
          assume "GenTensor_scale ops tmp' (- 1) h2 = (Inr x, h3)"
          with steps_GenTensor_scale [OF tt2, of ops "- 1"]
          have "step no nb A Q h2 h3" by (simp add: steps_def)
          with t2 have "touches no nb A Q h3 (sgt_refGT this)" by (rule touches_step)
          then show "steps no nb A Q
            (GenTensor_inplace_add ops (sgt_refGT this) tmp' (sgt_s this) (sgt_s this)) h3"
            unfolding GenTensor_inplace_add_def by (rule steps_SepRepTensor_inplace_add)
        qed
      qed
    qed
  qed
qed

lemma steps_mutate:
  assumes "touches no nb A Q h g" and "no \<le> length (objs h)" and "nb \<le> length (bufs h)"
  shows "steps no nb A Q (mutate ops g m) h"
proof (cases m)
  case (Scale x)
  with assms show ?thesis by (simp add: steps_GenTensor_scale)
next
  case (Plus_eq rhs)
  with assms show ?thesis by (simp add: steps_GenTensor_operator_plus_eq)
next
  case (Plus_eq_Slice rhs)
  with assms show ?thesis by (simp add: steps_GenTensor_operator_plus_eq_Slice)
next
  case (Gaxpy alpha rhs beta)
  with assms show ?thesis by (simp add: GenTensor_gaxpy_def steps_SepRepTensor_gaxpy)
next
  case (Update_by rhs)
  with assms show ?thesis by (simp add: GenTensor_update_by_def steps_SepRepTensor_update_by)
next
  case Finalize_accumulate
  with assms show ?thesis
    by (simp add: GenTensor_finalize_accumulate_def steps_SepRepTensor_finalize_accumulate)
next
  case (ReduceRank eps)
  with assms show ?thesis by (simp add: GenTensor_reduceRank_def steps_SepRepTensor_reduceRank)
next
  case (Accumulate_from src fac)
  with assms show ?thesis
    by (simp add: GenTensor_accumulate_into_def steps_SepRepTensor_accumulate_into)
next
  case (Slice_plus_eq s rhs)
  with assms show ?thesis
    by (simp add: steps_SliceGenTensor_operator_plus_eq GenTensor_operator_call_def)
next
  case (Slice_plus_eq_Slice s rhs)
  with assms show ?thesis
    by (simp add: SliceGenTensor_operator_plus_eq_Slice_def GenTensor_inplace_add_def
        steps_SepRepTensor_inplace_add GenTensor_operator_call_def)
next
  case (Slice_assign_number s number)
  with assms show ?thesis by (simp add: steps_slice_zero GenTensor_operator_call_def)
qed

lemma steps_mutate_all:
  assumes "touches no nb A Q h g" and "no \<le> length (objs h)" and "nb \<le> length (bufs h)"
  shows "steps no nb A Q (mutate_all ops g ms) h"
  using assms
proof (induction ms arbitrary: h)
  case Nil
  then show ?case by simp
next
  case (Cons m ms)
  show ?case
    unfolding mutate_all.simps
  proof (rule steps_bind)
    show "steps no nb A Q (mutate ops g m) h"
      using Cons.prems by (rule steps_mutate)
  next
    fix x h1
    assume "mutate ops g m h = (Inr x, h1)"
    with steps_mutate [OF Cons.prems, of ops m] have s: "step no nb A Q h h1"
      by (simp add: steps_def)
    with Cons.prems have "touches no nb A Q h1 g" "no \<le> length (objs h1)" "nb \<le> length (bufs h1)"
      by (auto intro: touches_step simp: step_def)
    then show "steps no nb A Q (mutate_all ops g ms) h1" by (rule Cons.IH)
  qed
qed


lemma content_unchanged:
  assumes "handle_ok h g"
    and "\<forall>a<length (objs h). objs h2 ! a = objs h ! a"
    and "\<forall>q<length (bufs h). bufs h2 ! q = bufs h ! q"
  shows "GenTensor_content h2 g = GenTensor_content h g"
  using assms
  by (auto simp: GenTensor_content_def handle_ok_def Tensor_ok_def Tensor_elems_def
      split: option.splits SepRepTensor.splits)

lemma elems_unchanged:
  assumes "Tensor_ok h t" and "\<forall>q<length (bufs h). bufs h2 ! q = bufs h ! q"
  shows "Tensor_elems h2 t = Tensor_elems h t"
  using assms by (auto simp: Tensor_ok_def Tensor_elems_def split: option.splits)

lemma step_nothing:
  assumes "step (length (objs h)) (length (bufs h)) {} {} h h2"
  shows "(\<forall>a<length (objs h). objs h2 ! a = objs h ! a) \<and>
         (\<forall>q<length (bufs h). bufs h2 ! q = bufs h ! q)"
  using assms by (auto simp: step_def)

lemma new_handle_untouched:
  fixes ops :: "('a::comm_ring_1, 's) SepRep_ops" and h :: "('a, 's) heap"
  assumes ap: "appended h h1 g'"
  shows "step (length (objs h)) (length (bufs h)) {} {} h (snd (mutate_all ops g' ms h1))"
proof -
  let ?no = "length (objs h)" and ?nb = "length (bufs h)"
  from ap have t: "touches ?no ?nb {} {} h1 g'" and l: "?no \<le> length (objs h1)" "?nb \<le> length (bufs h1)"
    by (auto simp: appended_def)
  have "steps ?no ?nb {} {} (mutate_all ops g' ms) h1"
    using t l by (rule steps_mutate_all)
  then have "step ?no ?nb {} {} h1 (snd (mutate_all ops g' ms h1))" by (simp add: steps_def)
  with appended_step [OF ap] show ?thesis by (rule step_trans)
qed

lemma old_handle_leaves_new:
  fixes ops :: "('a::comm_ring_1, 's) SepRep_ops" and h :: "('a, 's) heap"
  assumes ap: "appended h h1 g'" and ok: "handle_ok h g"
  shows "GenTensor_content (snd (mutate_all ops g ms h1)) g' = GenTensor_content h1 g'"
proof (cases g')
  case None
  then show ?thesis by (simp add: GenTensor_content_def)
next
  case (Some a')
  let ?no = "length (objs h1)" and ?nb = "length (bufs h1)"
  let ?A = "set_option g" and ?Q = "GenTensor_bufs h g"
  let ?h2 = "snd (mutate_all ops g ms h1)"
  from ap obtain os bs where pre: "objs h1 = objs h @ os" "bufs h1 = bufs h @ bs"
    by (auto simp: appended_def)
  have tg: "touches ?no ?nb ?A ?Q h1 g"
    using ok pre
    by (auto simp: touches_def handle_ok_def Tensor_ok_def GenTensor_bufs_def nth_append
        split: option.splits SepRepTensor.splits)
  have "steps ?no ?nb ?A ?Q (mutate_all ops g ms) h1"
    using tg by (rule steps_mutate_all) simp_all
  then have st: "step ?no ?nb ?A ?Q h1 ?h2" by (simp add: steps_def)
  from ap Some have a': "length (objs h) \<le> a'" "a' < length (objs h1)"
    and b': "case objs h1 ! a' of
               FullTensor t \<Rightarrow> (case t_p t of None \<Rightarrow> True
                                | Some q \<Rightarrow> q < length (bufs h1) \<and> length (bufs h) \<le> q)
             | LowRankTensor d \<Rightarrow> True"
    by (auto simp: appended_def touches_def split: SepRepTensor.splits option.splits)
  have notA: "a' \<notin> ?A" using ok a' by (auto simp: handle_ok_def)
  with st a' have same: "objs ?h2 ! a' = objs h1 ! a'" by (auto simp: step_def)
  have notQ: "\<And>q. length (bufs h) \<le> q \<Longrightarrow> q \<notin> ?Q"
    using ok by (auto simp: handle_ok_def Tensor_ok_def GenTensor_bufs_def
        split: option.splits SepRepTensor.splits)
  show ?thesis
  proof (cases "objs h1 ! a'")
    case (LowRankTensor d)
    with same Some show ?thesis by (simp add: GenTensor_content_def)
  next
    case (FullTensor t)
    show ?thesis
    proof (cases "t_p t")
      case None
      with same Some FullTensor show ?thesis by (simp add: GenTensor_content_def Tensor_elems_def)
    next
      case (Some q)
      with b' FullTensor have q: "q < length (bufs h1)" "length (bufs h) \<le> q" by simp_all
      with st notQ [of q] have "bufs ?h2 ! q = bufs h1 ! q" by (auto simp: step_def)
      with same \<open>g' = Some a'\<close> FullTensor Some show ?thesis
        by (simp add: GenTensor_content_def Tensor_elems_def)
    qed
  qed
qed

lemma overwrite_leaves_new:
  assumes ap: "appended h h1 g'" and q: "q < length (bufs h)"
  shows "GenTensor_content (h1\<lparr>bufs := (bufs h1)[q := xs]\<rparr>) g' = GenTensor_content h1 g'"
  using assms
  by (auto simp: appended_def touches_def GenTensor_content_def Tensor_elems_def
      split: option.splits SepRepTensor.splits)

section \<open>Queries on the empty handle, and \<^verbatim>\<open>swapdim\<close>\<close>

text \<open>
  C10.  For the empty handle (no backend attached) the four queries return defaults and
  do not fail: \<^verbatim>\<open>has_data()\<close> is false, \<^verbatim>\<open>size()\<close> is 0, \<^verbatim>\<open>type()\<close> is \<^verbatim>\<open>TT_NONE\<close> and \<^verbatim>\<open>ndim()\<close>
  is -1; the heap is as before.
\<close>

theorem empty_handle_queries:
  "GenTensor_has_data ops GenTensor_empty h = (Inr False, h) \<and>
   GenTensor_size ops GenTensor_empty h = (Inr 0, h) \<and>
   GenTensor_type ops GenTensor_empty h = (Inr TT_NONE, h) \<and>
   GenTensor_ndim ops GenTensor_empty h = (Inr (- 1), h)"
  by (simp add: GenTensor_has_data_def GenTensor_size_def GenTensor_type_def
      GenTensor_ndim_def GenTensor_empty_def return_def)

text \<open>
  C9.  \<^verbatim>\<open>swapdim(idim, jdim)\<close> on a handle fails with a failed assertion for every handle,
  whatever its backend, and for all dimension arguments; the heap is as before, so the
  dimension swap that \<^verbatim>\<open>FullTensor\<close> implements (it would allocate a new object) has not
  run.
\<close>

theorem swapdim_always_fails:
  "GenTensor_swapdim ops this idim jdim h = (Inl AssertionFailed, h)"
  by (simp add: GenTensor_swapdim_def bind_def MADNESS_ASSERT_def throw_def)

section \<open>Binary operations between handles of different kinds\<close>

text \<open>
  C1 (amended).  For handles whose kinds differ, \<^verbatim>\<open>trace_conj\<close> fails with the failed
  kind assertion and leaves the heap as it is, whether the handles have a backend or not;
  so do \<^verbatim>\<open>a += b\<close> and \<^verbatim>\<open>gaxpy\<close> with \<^verbatim>\<open>double\<close> factors when both handles have a backend.
\<close>

theorem kind_mismatch:
  fixes ops :: "('a::comm_ring_1, 's) SepRep_ops" and h :: "('a, 's) heap"
  assumes "GenTensor_type ops this h = (Inr ta, h)"
    and "GenTensor_type ops rhs h = (Inr tb, h)"
    and "ta \<noteq> tb"
  shows "GenTensor_trace_conj ops this rhs h = (Inl AssertionFailed, h) \<and>
    (this \<noteq> None \<and> rhs \<noteq> None \<longrightarrow>
       GenTensor_operator_plus_eq ops this rhs h = (Inl AssertionFailed, h) \<and>
       GenTensor_gaxpy ops this alpha rhs beta h = (Inl AssertionFailed, h))"
proof -
  have tc: "GenTensor_trace_conj ops this rhs h = (Inl AssertionFailed, h)"
    using assms by (simp add: GenTensor_trace_conj_def run)
  have both: "GenTensor_operator_plus_eq ops this rhs h = (Inl AssertionFailed, h) \<and>
       GenTensor_gaxpy ops this alpha rhs beta h = (Inl AssertionFailed, h)"
    if "this \<noteq> None" "rhs \<noteq> None"
  proof -
    from that obtain a b where ab: "this = Some a" "rhs = Some b" by auto
    from assms ab have ne: "SepRepTensor_type ops (objs h ! a) \<noteq> SepRepTensor_type ops (objs h ! b)"
      by (auto simp: GenTensor_type_def run)
    have pe: "GenTensor_operator_plus_eq ops this rhs h = (Inl AssertionFailed, h)"
      using ne by (simp add: ab GenTensor_operator_plus_eq_def run)
    have ga: "GenTensor_gaxpy ops this alpha rhs beta h = (Inl AssertionFailed, h)"
      using ne by (cases "objs h ! a")
        (auto simp: ab GenTensor_gaxpy_def SepRepTensor_gaxpy_def FullTensor_gaxpy_def
          LowRankTensor_gaxpy_def SepRepTensor_type_def run)
    from pe ga show ?thesis ..
  qed
  from tc both show ?thesis by blast
qed

text \<open>A dense and a low-rank handle of the concrete heap.\<close>

theorem kind_mismatch_witness:
  "GenTensor_type exact_SepRep (Some 0) example_heap = (Inr TT_FULL, example_heap) \<and>
   GenTensor_type exact_SepRep (Some 1) example_heap = (Inr TT_3D, example_heap) \<and>
   GenTensor_trace_conj exact_SepRep (Some 0) (Some 1) example_heap =
     (Inl AssertionFailed, example_heap) \<and>
   GenTensor_operator_plus_eq exact_SepRep (Some 0) (Some 1) example_heap =
     (Inl AssertionFailed, example_heap) \<and>
   GenTensor_gaxpy exact_SepRep (Some 0) 1 (Some 1) 1 example_heap =
     (Inl AssertionFailed, example_heap)"
proof -
  have a: "GenTensor_type exact_SepRep (Some 0) example_heap = (Inr TT_FULL, example_heap)"
    by code_simp
  have b: "GenTensor_type exact_SepRep (Some 1) example_heap = (Inr TT_3D, example_heap)"
    by code_simp
  have c: "TT_FULL \<noteq> TT_3D" by simp
  from kind_mismatch [OF a b c, of 1 1] a b show ?thesis by simp
qed

text \<open>
  The claim as stated (every pair of handles whose kinds differ, the kind of the empty
  handle being \<^verbatim>\<open>TT_NONE\<close>) fails for an empty operand: \<^verbatim>\<open>a += b\<close> and \<^verbatim>\<open>gaxpy\<close> read the
  kind through the backend pointer, which is empty, and no kind-mismatch failure is
  raised.
\<close>

theorem kind_mismatch_empty_operand:
  "GenTensor_type exact_SepRep GenTensor_empty example_heap = (Inr TT_NONE, example_heap) \<and>
   GenTensor_type exact_SepRep (Some 0) example_heap = (Inr TT_FULL, example_heap) \<and>
   GenTensor_operator_plus_eq exact_SepRep GenTensor_empty (Some 0) example_heap =
     (Inl NullPointer, example_heap) \<and>
   GenTensor_gaxpy exact_SepRep (Some 0) 1 GenTensor_empty 1 example_heap =
     (Inl NullPointer, example_heap)"
  by code_simp

section \<open>Shallow copies\<close>

lemma GenTensor_scale_content:
  fixes ops :: "('a::comm_ring_1, 's) SepRep_ops" and h :: "('a, 's) heap"
  assumes "handle_owned h g"
  shows "\<exists>h'. GenTensor_scale ops g x h = (Inr (), h') \<and>
           GenTensor_content h' g = scaled ops x (GenTensor_content h g)"
proof (cases g)
  case None
  then show ?thesis
    by (simp add: GenTensor_scale_def run GenTensor_content_def scaled_def)
next
  case (Some a)
  with assms have a: "a < length (objs h)" by (simp add: handle_owned_def)
  show ?thesis
  proof (cases "objs h ! a")
    case (LowRankTensor d)
    then show ?thesis using Some a
      by (simp add: GenTensor_scale_def SepRepTensor_scale_def run GenTensor_content_def scaled_def)
  next
    case (FullTensor t)
    with assms Some have own: "Tensor_owned h t" by (simp add: handle_owned_def)
    show ?thesis
    proof (cases "t_p t")
      case None
      then show ?thesis using Some FullTensor
        by (simp add: GenTensor_scale_def SepRepTensor_scale_def run Tensor_scale_def
            Tensor_unary_def GenTensor_content_def scaled_def Tensor_elems_def)
    next
      case (Some q)
      with own have q: "q < length (bufs h)" "length (bufs h ! q) = prod_list (t_dim t)"
        and t: "t = \<lparr>t_p = Some q, t_off = 0, t_dim = t_dim t, t_stride = row_major (t_dim t)\<rparr>"
        by (simp_all add: Tensor_owned_def)
      let ?h' = "h\<lparr>bufs := (bufs h)[q := map (\<lambda>v. v * x) (bufs h ! q)]\<rparr>"
      have sc: "Tensor_scale t x h = (Inr (), ?h')"
        using Tensor_scale_owned [OF q, of x] t by simp
      have r: "GenTensor_scale ops g x h = (Inr (), ?h')"
        using \<open>g = Some a\<close> FullTensor sc
        by (simp add: GenTensor_scale_def SepRepTensor_scale_def run)
      have e0: "Tensor_elems h t = bufs h ! q"
        using Tensor_elems_fresh [OF q] t by simp
      have e1: "Tensor_elems ?h' t = map (\<lambda>v. v * x) (bufs h ! q)"
        using Tensor_elems_fresh [of q ?h' "t_dim t"] q t by simp
      have c: "GenTensor_content ?h' g = scaled ops x (GenTensor_content h g)"
        using \<open>g = Some a\<close> FullTensor e0 e1
        by (simp add: GenTensor_content_def scaled_def)
      from r c show ?thesis by blast
    qed
  qed
qed

text \<open>
  C2.  After copy-construction from \<open>h1\<close> or the assignment \<^verbatim>\<open>h2 = h1\<close> the new handle is
  the pointer of \<open>h1\<close>: both reference the same backend.  Scaling through either one
  succeeds, and the other one then shows the scaled content; after any sequence of
  in-place operations through either one, both show the same content.  (The backend's
  dense array owns its buffer, as every array the handle's constructors make does.)
\<close>

theorem shallow_copy_aliasing:
  fixes ops :: "('a::comm_ring_1, 's) SepRep_ops" and h :: "('a, 's) heap"
  assumes "handle_owned h h1"
  shows "GenTensor_copy_ctor h1 = h1 \<and> GenTensor_operator_assign h2 h1 = h1 \<and>
    (\<forall>g. g = GenTensor_copy_ctor h1 \<or> g = GenTensor_operator_assign h2 h1 \<longrightarrow>
       (\<exists>h'. GenTensor_scale ops g x h = (Inr (), h') \<and>
              GenTensor_content h' h1 = scaled ops x (GenTensor_content h h1)) \<and>
       (\<exists>h'. GenTensor_scale ops h1 x h = (Inr (), h') \<and>
              GenTensor_content h' g = scaled ops x (GenTensor_content h g)) \<and>
       (\<forall>ms. GenTensor_content (snd (mutate_all ops g ms h)) h1 =
              GenTensor_content (snd (mutate_all ops g ms h)) g \<and>
              GenTensor_content (snd (mutate_all ops h1 ms h)) g =
              GenTensor_content (snd (mutate_all ops h1 ms h)) h1))"
  using GenTensor_scale_content [OF assms, of ops x]
  by (auto simp: GenTensor_copy_ctor_def GenTensor_operator_assign_def)


text \<open>Scaling the dense handle of the concrete heap by 2 through its copy.\<close>

theorem shallow_copy_aliasing_witness:
  "handle_owned example_heap (Some 0) \<and>
   GenTensor_operator_assign GenTensor_empty (Some 0) = Some 0 \<and>
   (\<exists>h'. GenTensor_scale exact_SepRep (GenTensor_operator_assign GenTensor_empty (Some 0)) 2
            example_heap = (Inr (), h') \<and>
          GenTensor_content h' (Some 0) = Dense [4] [2, 4, 6, 8])"
proof -
  have a: "handle_owned example_heap (Some 0)" by code_simp
  have e: "scaled exact_SepRep 2 (GenTensor_content example_heap (Some 0)) = Dense [4] [2, 4, 6, 8]"
    by code_simp
  from shallow_copy_aliasing [OF a, of GenTensor_empty exact_SepRep 2]
  have "GenTensor_operator_assign GenTensor_empty (Some 0) = Some 0"
    and "\<exists>h'. GenTensor_scale exact_SepRep (GenTensor_operator_assign GenTensor_empty (Some 0)) 2
            example_heap = (Inr (), h') \<and>
          GenTensor_content h' (Some 0) =
            scaled exact_SepRep 2 (GenTensor_content example_heap (Some 0))"
    by blast+
  with a e show ?thesis by simp
qed

section \<open>Multiplication by a scalar\<close>

text \<open>
  C8.  Multiplication by a scalar of another type than the element type fails with a
  failed assertion and changes nothing.  Multiplication by a scalar of the element type
  returns a handle (a new backend, when the operand has one) whose content is the scaled
  copy of the operand's; every object and buffer that existed is as before, and so is
  the operand's content.
\<close>

theorem scalar_multiplication:
  fixes ops :: "('a::comm_ring_1, 's) SepRep_ops" and h :: "('a, 's) heap" and y :: 'q
  shows "GenTensor_operator_mult ops this (Scalar_Q y) h = (Inl AssertionFailed, h) \<and>
    (handle_ok h this \<longrightarrow>
      (\<exists>r h'. GenTensor_operator_mult ops this (Scalar_T x :: ('a, 'q) scalar) h = (Inr r, h') \<and>
         take (length (objs h)) (objs h') = objs h \<and>
         take (length (bufs h)) (bufs h') = bufs h \<and>
         GenTensor_content h' this = GenTensor_content h this \<and>
         (this \<noteq> None \<longrightarrow> r = Some (length (objs h))) \<and>
         GenTensor_content h' r = scaled ops x (copied ops (GenTensor_content h this))))"
proof (intro conjI impI)
  show "GenTensor_operator_mult ops this (Scalar_Q y) h = (Inl AssertionFailed, h)"
    by (simp add: GenTensor_operator_mult_def GenTensor_operator_mult_Q_def run)
next
  assume ok: "handle_ok h this"
  let ?goal = "\<exists>r h'. GenTensor_operator_mult ops this (Scalar_T x :: ('a, 'q) scalar) h = (Inr r, h') \<and>
         take (length (objs h)) (objs h') = objs h \<and>
         take (length (bufs h)) (bufs h') = bufs h \<and>
         GenTensor_content h' this = GenTensor_content h this \<and>
         (this \<noteq> None \<longrightarrow> r = Some (length (objs h))) \<and>
         GenTensor_content h' r = scaled ops x (copied ops (GenTensor_content h this))"
  show ?goal
  proof (cases this)
    case None
    then show ?thesis
      by (simp add: GenTensor_operator_mult_def GenTensor_operator_mult_T_def copy_GenTensor_def
          GenTensor_empty_def GenTensor_copy_ctor_def GenTensor_scale_def run
          GenTensor_content_def scaled_def copied_def)
  next
    case (Some a)
    with ok have a: "a < length (objs h)" by (simp add: handle_ok_def)
    show ?thesis
    proof (cases "objs h ! a")
      case (LowRankTensor d)
      then show ?thesis using Some a
        by (simp add: GenTensor_operator_mult_def GenTensor_operator_mult_T_def copy_GenTensor_def
            GenTensor_sr_def GenTensor_copy_ctor_def GenTensor_scale_def run
            SepRepTensor_copy_this_def SepRepTensor_scale_def
            GenTensor_content_def scaled_def copied_def nth_append)
    next
      case (FullTensor t)
      with ok Some have tok: "Tensor_ok h t" by (simp add: handle_ok_def)
      show ?thesis
      proof (cases "t_p t")
        case None
        with tok have "t_dim t = []" by (simp add: Tensor_ok_def)
        then show ?thesis using Some a FullTensor None
          by (simp add: GenTensor_operator_mult_def GenTensor_operator_mult_T_def copy_GenTensor_def
              GenTensor_sr_def GenTensor_copy_ctor_def GenTensor_scale_def run
              SepRepTensor_copy_this_def SepRepTensor_scale_def FullTensor_copy_this_def
              Tensor_copy_run Tensor_default_def Tensor_scale_def Tensor_unary_def
              GenTensor_content_def scaled_def copied_def nth_append Tensor_elems_def)
      next
        case (Some q)
        with tok have q: "q < length (bufs h)" by (simp add: Tensor_ok_def)
        have len: "length (Tensor_elems h t) = prod_list (t_dim t)"
          using tok Some by (rule length_Tensor_elems)
        let ?c = "\<lparr>t_p = Some (length (bufs h)), t_off = 0, t_dim = t_dim t,
                   t_stride = row_major (t_dim t)\<rparr>"
        let ?h1 = "h\<lparr>bufs := bufs h @ [Tensor_elems h t], objs := objs h @ [FullTensor ?c]\<rparr>"
        let ?h2 = "?h1\<lparr>bufs := (bufs ?h1)[length (bufs h) := map (\<lambda>v. v * x) (Tensor_elems h t)]\<rparr>"
        have sc: "Tensor_scale ?c x ?h1 = (Inr (), ?h2)"
          using Tensor_scale_owned [of "length (bufs h)" ?h1 "t_dim t" x] len by simp
        have run1: "GenTensor_operator_mult ops this (Scalar_T x :: ('a, 'q) scalar) h =
                    (Inr (Some (length (objs h))), ?h2)"
          using \<open>this = Some a\<close> FullTensor Some sc
          by (simp add: GenTensor_operator_mult_def GenTensor_operator_mult_T_def copy_GenTensor_def
              GenTensor_sr_def GenTensor_copy_ctor_def GenTensor_scale_def run
              SepRepTensor_copy_this_def SepRepTensor_scale_def FullTensor_copy_this_def
              Tensor_copy_run)
        have old: "Tensor_elems ?h2 t = Tensor_elems h t"
          using Some q by (simp add: Tensor_elems_def nth_append)
        have new: "Tensor_elems ?h2 ?c = map (\<lambda>v. v * x) (Tensor_elems h t)"
          using Tensor_elems_fresh [of "length (bufs h)" ?h2 "t_dim t"] len by simp
        have p1: "take (length (objs h)) (objs ?h2) = objs h" by simp
        have p2: "take (length (bufs h)) (bufs ?h2) = bufs h" by simp
        have p3: "GenTensor_content ?h2 this = GenTensor_content h this"
          using \<open>this = Some a\<close> a FullTensor old
          by (simp add: GenTensor_content_def nth_append)
        have p4: "GenTensor_content ?h2 (Some (length (objs h))) =
                  scaled ops x (copied ops (GenTensor_content h this))"
          using \<open>this = Some a\<close> a FullTensor new
          by (simp add: GenTensor_content_def scaled_def copied_def nth_append)
        from run1 p1 p2 p3 p4 show ?thesis by blast
      qed
    qed
  qed
qed


text \<open>Three times the dense handle of the concrete heap.\<close>

theorem scalar_multiplication_witness:
  "handle_ok example_heap (Some 0) \<and>
   (\<exists>r h'. GenTensor_operator_mult exact_SepRep (Some 0) (Scalar_T 3 :: (int, nat) scalar)
              example_heap = (Inr r, h') \<and>
           GenTensor_content h' (Some 0) = Dense [4] [1, 2, 3, 4] \<and>
           GenTensor_content h' r = Dense [4] [3, 6, 9, 12])"
proof -
  have a: "handle_ok example_heap (Some 0)" by code_simp
  have b: "GenTensor_content example_heap (Some 0) = Dense [4] [1, 2, 3, 4]" by code_simp
  have e: "scaled exact_SepRep 3 (copied exact_SepRep (GenTensor_content example_heap (Some 0))) =
           Dense [4] [3, 6, 9, 12]"
    by code_simp
  from scalar_multiplication [of exact_SepRep "Some 0" "0::nat" example_heap 3] a b e
  show ?thesis by auto
qed


section \<open>Conversion to full rank\<close>

text \<open>
  \<^verbatim>\<open>to_full_rank(x)\<close> on the kinds it handles: if \<open>x\<close> has data and is of kind \<^verbatim>\<open>TT_FULL\<close>,
  nothing happens; if \<open>x\<close> has data and is of kind \<^verbatim>\<open>TT_3D\<close>, the content is reconstructed
  and \<open>x\<close> is rebound to a new dense backend that holds it, every object and buffer that
  existed being as before; if \<open>x\<close> has no data (no backend, or a backend without data),
  \<open>x\<close> is rebound to a new empty dense backend.
\<close>

lemma to_full_rank_cases:
  fixes ops :: "('a, 's) SepRep_ops" and h :: "('a, 's) heap"
  assumes has: "GenTensor_has_data ops arg h = (Inr has, h)"
    and ty: "GenTensor_type ops arg h = (Inr tt, h)"
  shows "(has \<and> tt = TT_FULL \<longrightarrow> to_full_rank ops arg h = (Inr arg, h)) \<and>
    (has \<and> tt = TT_3D \<longrightarrow>
      (\<forall>d. GenTensor_content h arg = LowRank d \<and>
         length (snd (sr_reconstructTensor ops d)) = prod_list (fst (sr_reconstructTensor ops d)) \<longrightarrow>
         (\<exists>h'. to_full_rank ops arg h = (Inr (Some (length (objs h))), h') \<and>
            take (length (objs h)) (objs h') = objs h \<and>
            take (length (bufs h)) (bufs h') = bufs h \<and>
            GenTensor_content h' (Some (length (objs h))) =
              Dense (fst (sr_reconstructTensor ops d)) (snd (sr_reconstructTensor ops d))))) \<and>
    (\<not> has \<longrightarrow>
      to_full_rank ops arg h =
        (Inr (Some (length (objs h))), h\<lparr>objs := objs h @ [FullTensor Tensor_default]\<rparr>))"
proof (intro conjI)
  show "has \<and> tt = TT_FULL \<longrightarrow> to_full_rank ops arg h = (Inr arg, h)"
    using has ty by (simp add: to_full_rank_def run)
  show "\<not> has \<longrightarrow>
      to_full_rank ops arg h =
        (Inr (Some (length (objs h))), h\<lparr>objs := objs h @ [FullTensor Tensor_default]\<rparr>)"
    using has by (simp add: to_full_rank_def run GenTensor_tt_def GenTensor_operator_assign_def)
  show "has \<and> tt = TT_3D \<longrightarrow>
      (\<forall>d. GenTensor_content h arg = LowRank d \<and>
         length (snd (sr_reconstructTensor ops d)) = prod_list (fst (sr_reconstructTensor ops d)) \<longrightarrow>
         (\<exists>h'. to_full_rank ops arg h = (Inr (Some (length (objs h))), h') \<and>
            take (length (objs h)) (objs h') = objs h \<and>
            take (length (bufs h)) (bufs h') = bufs h \<and>
            GenTensor_content h' (Some (length (objs h))) =
              Dense (fst (sr_reconstructTensor ops d)) (snd (sr_reconstructTensor ops d))))"
  proof (intro impI allI, elim conjE)
    fix d
    assume h3: "has" "tt = TT_3D" and c: "GenTensor_content h arg = LowRank d"
      and len: "length (snd (sr_reconstructTensor ops d)) = prod_list (fst (sr_reconstructTensor ops d))"
    from c obtain a where a: "arg = Some a" "objs h ! a = LowRankTensor d"
      by (auto simp: GenTensor_content_def split: option.splits SepRepTensor.splits)
    from has h3 a have valid: "sr_is_valid ops d"
      by (simp add: GenTensor_has_data_def SepRepTensor_has_data_def run)
    from ty h3 a have kind: "sr_tensor_type ops d = TT_3D"
      by (simp add: GenTensor_type_def SepRepTensor_type_def run)
    obtain ds xs where v: "sr_reconstructTensor ops d = (ds, xs)"
      by (cases "sr_reconstructTensor ops d")
    have r: "to_full_rank ops arg h =
        (Inr (Some (length (objs h))),
         h\<lparr>bufs := bufs h @ [xs, map (\<lambda>i. xs ! i) [0..<prod_list ds]],
           objs := objs h @ [FullTensor \<lparr>t_p = Some (Suc (length (bufs h))), t_off = 0,
                                          t_dim = ds, t_stride = row_major ds\<rparr>]\<rparr>)"
      using a valid kind
      by (simp add: run to_full_rank_def GenTensor_has_data_def GenTensor_type_def
          SepRepTensor_has_data_def SepRepTensor_type_def
          GenTensor_reconstruct_tensor_def
          SepRepTensor_reconstructTensor_def LowRankTensor_reconstructTensor_def
          Tensor_of_def GenTensor_Tensor_def Tensor_copy_def v
          GenTensor_operator_assign_def Tensor_elems_def Tensor_positions_def
          positions_row_major nth_append)
    show "\<exists>h'. to_full_rank ops arg h = (Inr (Some (length (objs h))), h') \<and>
            take (length (objs h)) (objs h') = objs h \<and>
            take (length (bufs h)) (bufs h') = bufs h \<and>
            GenTensor_content h' (Some (length (objs h))) =
              Dense (fst (sr_reconstructTensor ops d)) (snd (sr_reconstructTensor ops d))"
      using len map_nth [of xs]
      by (simp add: r v GenTensor_content_def Tensor_elems_def Tensor_positions_def
          positions_row_major nth_append)
  qed
qed

text \<open>The low-rank handle of the concrete heap, of kind \<^verbatim>\<open>TT_3D\<close>, converted.\<close>

lemma to_full_rank_cases_example:
  "GenTensor_has_data exact_SepRep (Some 1) example_heap = (Inr True, example_heap) \<and>
   GenTensor_type exact_SepRep (Some 1) example_heap = (Inr TT_3D, example_heap) \<and>
   (\<exists>h'. to_full_rank exact_SepRep (Some 1) example_heap = (Inr (Some 2), h') \<and>
          GenTensor_content h' (Some 2) = Dense [4] [1, 0, 0, 2])"
proof -
  have a: "GenTensor_has_data exact_SepRep (Some 1) example_heap = (Inr True, example_heap)"
    by code_simp
  have b: "GenTensor_type exact_SepRep (Some 1) example_heap = (Inr TT_3D, example_heap)"
    by code_simp
  have c: "GenTensor_content example_heap (Some 1) = LowRank (TT_3D, Some ([4], [1, 0, 0, 2]))"
    by code_simp
  have d: "sr_reconstructTensor exact_SepRep (TT_3D, Some ([4], [1, 0, 0, 2::int])) = ([4], [1, 0, 0, 2])"
    by code_simp
  have e: "length (objs example_heap) = 2" by code_simp
  from to_full_rank_cases [OF a b] c d e
  have "\<exists>h'. to_full_rank exact_SepRep (Some 1) example_heap = (Inr (Some 2), h') \<and>
          GenTensor_content h' (Some 2) = Dense [4] [1, 0, 0, 2]"
    by auto
  with a b show ?thesis by simp
qed

text \<open>
  C4.  \<^verbatim>\<open>to_full_rank(x)\<close> of a handle \<open>x\<close> that has data and is of the low-rank kind \<^verbatim>\<open>TT_2D\<close>
  does not reconstruct the content: the kind falls through the tests for \<^verbatim>\<open>TT_FULL\<close>
  and \<^verbatim>\<open>TT_3D\<close> into the final \<^verbatim>\<open>else\<close>, the call fails with the runtime error
  \<^verbatim>\<open>unknown TensorType\<close>, and \<open>x\<close> keeps its low-rank backend, for every engine and heap.
\<close>

theorem to_full_rank_rejects_2D:
  fixes ops :: "('a, 's) SepRep_ops" and h :: "('a, 's) heap"
  assumes "GenTensor_has_data ops x h = (Inr True, h)"
    and "GenTensor_type ops x h = (Inr TT_2D, h)"
  shows "to_full_rank ops x h = (Inl RuntimeError, h)"
  using assms by (simp add: to_full_rank_def run)

text \<open>
  The dense handle of the concrete heap, converted to the kind \<^verbatim>\<open>TT_2D\<close> by \<^verbatim>\<open>to_low_rank\<close>
  and then back by \<^verbatim>\<open>to_full_rank\<close>: the second call fails and the handle stays low-rank.
\<close>

theorem to_full_rank_rejects_2D_witness:
  "to_low_rank exact_SepRep (Some 0) 1 TT_2D example_heap = (Inr (Some 2), example_heap_2D) \<and>
   GenTensor_has_data exact_SepRep (Some 2) example_heap_2D = (Inr True, example_heap_2D) \<and>
   GenTensor_type exact_SepRep (Some 2) example_heap_2D = (Inr TT_2D, example_heap_2D) \<and>
   to_full_rank exact_SepRep (Some 2) example_heap_2D = (Inl RuntimeError, example_heap_2D)"
proof -
  have r: "to_low_rank exact_SepRep (Some 0) 1 TT_2D example_heap = (Inr (Some 2), example_heap_2D)"
    by code_simp
  have a: "GenTensor_has_data exact_SepRep (Some 2) example_heap_2D = (Inr True, example_heap_2D)"
    by code_simp
  have b: "GenTensor_type exact_SepRep (Some 2) example_heap_2D = (Inr TT_2D, example_heap_2D)"
    by code_simp
  from to_full_rank_rejects_2D [OF a b] r a b show ?thesis by simp
qed

section \<open>Conversion to low rank\<close>

lemma GenTensor_Tensor_LowRank:
  fixes ops :: "('a, 's) SepRep_ops" and h :: "('a, 's) heap"
  assumes k: "k = TT_3D \<or> k = TT_2D" and eps: "0 < eps" and ok: "Tensor_ok h t"
  shows "\<exists>h'. GenTensor_Tensor ops t eps k h = (Inr (Some (length (objs h))), h') \<and>
           take (length (objs h)) (objs h') = objs h \<and>
           take (length (bufs h)) (bufs h') = bufs h \<and>
           GenTensor_content h' (Some (length (objs h))) =
             LowRank (sr_SepRep_Tensor ops (t_dim t) (Tensor_elems h t) eps k)"
proof (cases "Tensor_iscontiguous t")
  case True
  then show ?thesis using k eps
    by (auto simp: GenTensor_Tensor_def LowRankTensor_Tensor_def run GenTensor_content_def)
next
  case False
  show ?thesis
  proof (cases "t_p t")
    case None
    with ok have "t_dim t = []" "t_stride t = []" by (auto simp: Tensor_ok_def)
    with False show ?thesis by (simp add: Tensor_iscontiguous_def)
  next
    case (Some q)
    let ?c = "\<lparr>t_p = Some (length (bufs h)), t_off = 0, t_dim = t_dim t,
               t_stride = row_major (t_dim t)\<rparr>"
    let ?h1 = "h\<lparr>bufs := bufs h @ [Tensor_elems h t]\<rparr>"
    have "Tensor_elems ?h1 ?c = Tensor_elems h t"
      using Tensor_elems_fresh [of "length (bufs h)" ?h1 "t_dim t"]
        length_Tensor_elems [OF ok Some] by simp
    then show ?thesis using k eps False Some
      by (auto simp: GenTensor_Tensor_def LowRankTensor_Tensor_def run Tensor_copy_run
          GenTensor_content_def)
  qed
qed

text \<open>
  \<^verbatim>\<open>to_low_rank(x, eps, k)\<close> for a low-rank kind \<open>k\<close>, on the kinds of \<open>x\<close> it handles: if \<open>x\<close>
  has data and is dense, then for a positive \<open>eps\<close> the engine factors the content at
  accuracy \<open>eps\<close> into the kind \<open>k\<close> and \<open>x\<close> is rebound to a new low-rank backend holding
  the result (every object and buffer that existed being as before), and for another
  \<open>eps\<close> the constructor's assertion \<^verbatim>\<open>eps>0.0\<close> fails; if \<open>x\<close> has data and is of kind
  \<^verbatim>\<open>TT_3D\<close>, nothing happens; if \<open>x\<close> has no data, \<open>x\<close> is rebound to a new empty backend
  of kind \<open>k\<close>.
\<close>

lemma to_low_rank_cases:
  fixes ops :: "('a, 's) SepRep_ops" and h :: "('a, 's) heap"
  assumes has: "GenTensor_has_data ops arg h = (Inr has, h)"
    and ty: "GenTensor_type ops arg h = (Inr tt, h)"
    and k: "k = TT_3D \<or> k = TT_2D"
  shows "(has \<and> handle_ok h arg \<and> 0 < eps \<longrightarrow>
      (\<forall>ds xs. GenTensor_content h arg = Dense ds xs \<longrightarrow>
         (\<exists>h'. to_low_rank ops arg eps k h = (Inr (Some (length (objs h))), h') \<and>
            take (length (objs h)) (objs h') = objs h \<and>
            take (length (bufs h)) (bufs h') = bufs h \<and>
            GenTensor_content h' (Some (length (objs h))) =
              LowRank (sr_SepRep_Tensor ops ds xs eps k)))) \<and>
    (has \<and> (\<exists>ds xs. GenTensor_content h arg = Dense ds xs) \<and> eps \<le> 0 \<longrightarrow>
      to_low_rank ops arg eps k h = (Inl AssertionFailed, h)) \<and>
    (has \<and> tt = TT_3D \<longrightarrow> to_low_rank ops arg eps k h = (Inr arg, h)) \<and>
    (\<not> has \<longrightarrow>
      to_low_rank ops arg eps k h =
        (Inr (Some (length (objs h))),
         h\<lparr>objs := objs h @ [LowRankTensor (sr_SepRep_tt ops k)]\<rparr>))"
proof (intro conjI)
  show "has \<and> tt = TT_3D \<longrightarrow> to_low_rank ops arg eps k h = (Inr arg, h)"
    using has ty by (simp add: to_low_rank_def run)
  show "\<not> has \<longrightarrow>
      to_low_rank ops arg eps k h =
        (Inr (Some (length (objs h))),
         h\<lparr>objs := objs h @ [LowRankTensor (sr_SepRep_tt ops k)]\<rparr>)"
    using has k by (auto simp: to_low_rank_def run GenTensor_tt_def GenTensor_operator_assign_def)
  show "has \<and> (\<exists>ds xs. GenTensor_content h arg = Dense ds xs) \<and> eps \<le> 0 \<longrightarrow>
      to_low_rank ops arg eps k h = (Inl AssertionFailed, h)"
  proof
    assume f: "has \<and> (\<exists>ds xs. GenTensor_content h arg = Dense ds xs) \<and> eps \<le> 0"
    then obtain a t where a: "arg = Some a" "objs h ! a = FullTensor t"
      by (auto simp: GenTensor_content_def split: option.splits SepRepTensor.splits)
    with has f have "Tensor_size t \<noteq> 0"
      by (simp add: GenTensor_has_data_def SepRepTensor_has_data_def run)
    then show "to_low_rank ops arg eps k h = (Inl AssertionFailed, h)"
      using a f k
      by (auto simp: to_low_rank_def GenTensor_has_data_def GenTensor_type_def
          SepRepTensor_has_data_def SepRepTensor_type_def GenTensor_full_tensor_def
          SepRepTensor_fullTensor_def GenTensor_Tensor_def run)
  qed
  show "has \<and> handle_ok h arg \<and> 0 < eps \<longrightarrow>
      (\<forall>ds xs. GenTensor_content h arg = Dense ds xs \<longrightarrow>
         (\<exists>h'. to_low_rank ops arg eps k h = (Inr (Some (length (objs h))), h') \<and>
            take (length (objs h)) (objs h') = objs h \<and>
            take (length (bufs h)) (bufs h') = bufs h \<and>
            GenTensor_content h' (Some (length (objs h))) =
              LowRank (sr_SepRep_Tensor ops ds xs eps k)))"
  proof (intro impI allI, elim conjE)
    fix ds xs
    assume f: "has" "handle_ok h arg" "0 < eps"
      and c: "GenTensor_content h arg = Dense ds xs"
    from c obtain a t where a: "arg = Some a" "objs h ! a = FullTensor t"
      and dx: "ds = t_dim t" "xs = Tensor_elems h t"
      by (auto simp: GenTensor_content_def split: option.splits SepRepTensor.splits)
    from f a have ok: "Tensor_ok h t" by (simp add: handle_ok_def)
    from has f a have sz: "Tensor_size t \<noteq> 0"
      by (simp add: GenTensor_has_data_def SepRepTensor_has_data_def run)
    have "to_low_rank ops arg eps k h = GenTensor_Tensor ops t eps k h"
      using a sz
      by (simp add: to_low_rank_def GenTensor_has_data_def GenTensor_type_def
          SepRepTensor_has_data_def SepRepTensor_type_def GenTensor_full_tensor_def
          SepRepTensor_fullTensor_def GenTensor_operator_assign_def run
          split: prod.splits sum.splits)
    with GenTensor_Tensor_LowRank [OF k f(3) ok, of ops] dx
    show "\<exists>h'. to_low_rank ops arg eps k h = (Inr (Some (length (objs h))), h') \<and>
            take (length (objs h)) (objs h') = objs h \<and>
            take (length (bufs h)) (bufs h') = bufs h \<and>
            GenTensor_content h' (Some (length (objs h))) =
              LowRank (sr_SepRep_Tensor ops ds xs eps k)"
      by simp
  qed
qed

text \<open>The dense handle of the concrete heap, factored into the kind \<^verbatim>\<open>TT_2D\<close>.\<close>

lemma to_low_rank_cases_example:
  "GenTensor_has_data exact_SepRep (Some 0) example_heap = (Inr True, example_heap) \<and>
   GenTensor_type exact_SepRep (Some 0) example_heap = (Inr TT_FULL, example_heap) \<and>
   handle_ok example_heap (Some 0) \<and>
   (\<exists>h'. to_low_rank exact_SepRep (Some 0) 1 TT_2D example_heap = (Inr (Some 2), h') \<and>
          GenTensor_content h' (Some 2) = LowRank (TT_2D, Some ([4], [1, 2, 3, 4])))"
proof -
  have a: "GenTensor_has_data exact_SepRep (Some 0) example_heap = (Inr True, example_heap)"
    by code_simp
  have b: "GenTensor_type exact_SepRep (Some 0) example_heap = (Inr TT_FULL, example_heap)"
    by code_simp
  have c: "GenTensor_content example_heap (Some 0) = Dense [4] [1, 2, 3, 4]"
    by code_simp
  have d: "sr_SepRep_Tensor exact_SepRep [4] [1, 2, 3, 4::int] 1 TT_2D = (TT_2D, Some ([4], [1, 2, 3, 4]))"
    by code_simp
  have e: "length (objs example_heap) = 2" by code_simp
  have f: "handle_ok example_heap (Some 0)" by code_simp
  have k: "TT_2D = TT_3D \<or> TT_2D = TT_2D" by simp
  from to_low_rank_cases [OF a b k, of 1] c d e f
  have "\<exists>h'. to_low_rank exact_SepRep (Some 0) 1 TT_2D example_heap = (Inr (Some 2), h') \<and>
          GenTensor_content h' (Some 2) = LowRank (TT_2D, Some ([4], [1, 2, 3, 4]))"
    by auto
  with a b f show ?thesis by simp
qed

text \<open>
  C5.  \<^verbatim>\<open>to_low_rank(x, eps, k)\<close> of a handle \<open>x\<close> that has data and already is of the
  low-rank kind \<^verbatim>\<open>TT_2D\<close> is not a no-op: the test for a handle that is low-rank already
  names \<^verbatim>\<open>TT_3D\<close> only, the kind \<^verbatim>\<open>TT_2D\<close> falls into the final \<^verbatim>\<open>else\<close>, and the call fails
  with a runtime error, for every engine, heap and accuracy and for every target kind
  \<open>k\<close>, \<^verbatim>\<open>TT_2D\<close> among them.
\<close>

theorem to_low_rank_rejects_2D:
  fixes ops :: "('a, 's) SepRep_ops" and h :: "('a, 's) heap"
  assumes "GenTensor_has_data ops x h = (Inr True, h)"
    and "GenTensor_type ops x h = (Inr TT_2D, h)"
  shows "to_low_rank ops x eps k h = (Inl RuntimeError, h)"
  using assms by (simp add: to_low_rank_def run)

text \<open>
  The dense handle of the concrete heap converted to the kind \<^verbatim>\<open>TT_2D\<close> twice: the first
  call builds the \<^verbatim>\<open>TT_2D\<close> backend, the second call, on that backend and with the same
  target kind, fails.
\<close>

theorem to_low_rank_rejects_2D_witness:
  "to_low_rank exact_SepRep (Some 0) 1 TT_2D example_heap = (Inr (Some 2), example_heap_2D) \<and>
   GenTensor_has_data exact_SepRep (Some 2) example_heap_2D = (Inr True, example_heap_2D) \<and>
   GenTensor_type exact_SepRep (Some 2) example_heap_2D = (Inr TT_2D, example_heap_2D) \<and>
   to_low_rank exact_SepRep (Some 2) 1 TT_2D example_heap_2D = (Inl RuntimeError, example_heap_2D)"
proof -
  have r: "to_low_rank exact_SepRep (Some 0) 1 TT_2D example_heap = (Inr (Some 2), example_heap_2D)"
    by code_simp
  have a: "GenTensor_has_data exact_SepRep (Some 2) example_heap_2D = (Inr True, example_heap_2D)"
    by code_simp
  have b: "GenTensor_type exact_SepRep (Some 2) example_heap_2D = (Inr TT_2D, example_heap_2D)"
    by code_simp
  from to_low_rank_rejects_2D [OF a b, of 1 TT_2D] r a b show ?thesis by simp
qed

section \<open>Zeroing a slice\<close>

text \<open>
  C6.  \<^verbatim>\<open>h(s) = 0\<close> on the dense handle of the concrete heap, the array \<open>[1, 2, 3, 4]\<close>, for
  the slice of the indices 2 to 3: the negated copy \<open>[-3, -4]\<close> of the slice is made (the
  two new buffers and backends), and then the in-place addition slices that copy, of
  extent 2, with the same slice again and fails; the array is still \<open>[1, 2, 3, 4]\<close>, not
  \<open>[1, 2, 0, 0]\<close>.
\<close>

theorem slice_zero_fails:
  "SliceGenTensor_operator_assign_number exact_SepRep
     (GenTensor_operator_call (Some 0) [Slice 2 3 1]) 0 example_heap =
   (Inl TensorException,
    example_heap\<lparr>bufs := bufs example_heap @ [[3, 4], [- 3, - 4]],
      objs := objs example_heap @
        [FullTensor \<lparr>t_p = Some 1, t_off = 0, t_dim = [2], t_stride = [1]\<rparr>,
         FullTensor \<lparr>t_p = Some 2, t_off = 0, t_dim = [2], t_stride = [1]\<rparr>]\<rparr>)"
  by code_simp

text \<open>For a slice that starts at index 0 the second slicing is harmless and the region is zeroed.\<close>

lemma slice_zero_anchored:
  "SliceGenTensor_operator_assign_number exact_SepRep
     (GenTensor_operator_call (Some 0) [Slice 0 1 1]) 0 example_heap =
   (Inr (),
    example_heap\<lparr>bufs := [[0, 0, 3, 4], [1, 2], [- 1, - 2]],
      objs := objs example_heap @
        [FullTensor \<lparr>t_p = Some 1, t_off = 0, t_dim = [2], t_stride = [1]\<rparr>,
         FullTensor \<lparr>t_p = Some 2, t_off = 0, t_dim = [2], t_stride = [1]\<rparr>]\<rparr>)"
  by code_simp


section \<open>What the deep constructions return\<close>

lemma slice_view_lengths:
  "slice_view s ds ks off = Some (off', ds', ks') \<Longrightarrow> length ks' = length ds'"
proof (induction s arbitrary: ds ks off off' ds' ks')
  case Nil
  then show ?case by (cases ds; cases ks) simp_all
next
  case (Cons x xs)
  show ?case
  proof (cases ds)
    case Nil
    with Cons.prems show ?thesis by simp
  next
    case dc: (Cons d dr)
    show ?thesis
    proof (cases ks)
      case Nil
      with Cons.prems dc show ?thesis by simp
    next
      case kc: (Cons k kr)
      from Cons.prems dc kc obtain o3 n m o2 d2 k2 where
        "slice_view xs dr kr o3 = Some (o2, d2, k2)" and "ds' = n # d2" and "ks' = m # k2"
        by (auto split: option.splits prod.splits)
      with Cons.IH show ?thesis by auto
    qed
  qed
qed

lemma Tensor_slice_ok:
  assumes "Tensor_slice t s h = (Inr v, h1)" and "Tensor_ok h t"
  shows "Tensor_ok h v \<and> t_p v \<noteq> None"
proof -
  from assms(1) obtain q off ds ks where q: "t_p t = Some q"
    and sv: "slice_view s (t_dim t) (t_stride t) (t_off t) = Some (off, ds, ks)"
    and v: "v = \<lparr>t_p = Some q, t_off = off, t_dim = ds, t_stride = ks\<rparr>"
    by (auto simp: Tensor_slice_def run split: option.splits prod.splits)
  from sv have "length ks = length ds" by (rule slice_view_lengths)
  with assms(2) q v show ?thesis by (simp add: Tensor_ok_def)
qed

lemma copy_dense:
  assumes ok: "Tensor_ok h t"
  shows "\<exists>h1. bind (Tensor_copy t) (\<lambda>c. bind (new_obj (FullTensor c)) (\<lambda>a. return (Some a))) h =
           (Inr (Some (length (objs h))), h1) \<and>
         GenTensor_content h1 (Some (length (objs h))) = Dense (t_dim t) (Tensor_elems h t)"
proof (cases "t_p t")
  case None
  with ok have "t_dim t = []" by (simp add: Tensor_ok_def)
  with None show ?thesis
    by (simp add: run Tensor_copy_run Tensor_default_def GenTensor_content_def Tensor_elems_def)
next
  case (Some q)
  let ?c = "\<lparr>t_p = Some (length (bufs h)), t_off = 0, t_dim = t_dim t,
             t_stride = row_major (t_dim t)\<rparr>"
  let ?h1 = "h\<lparr>bufs := bufs h @ [Tensor_elems h t], objs := objs h @ [FullTensor ?c]\<rparr>"
  have "Tensor_elems ?h1 ?c = Tensor_elems h t"
    using Tensor_elems_fresh [of "length (bufs h)" ?h1 "t_dim t"]
      length_Tensor_elems [OF ok Some] by simp
  then show ?thesis using Some
    by (simp add: run Tensor_copy_run GenTensor_content_def)
qed

lemma copy_GenTensor_content:
  assumes ok: "handle_ok h rhs"
  shows "\<exists>g' h1. copy_GenTensor ops rhs h = (Inr g', h1) \<and> (rhs \<noteq> None \<longrightarrow> g' \<noteq> None) \<and>
           GenTensor_content h1 g' = copied ops (GenTensor_content h rhs)"
proof (cases rhs)
  case None
  then show ?thesis
    by (simp add: copy_GenTensor_def GenTensor_empty_def run GenTensor_content_def copied_def)
next
  case (Some a)
  show ?thesis
  proof (cases "objs h ! a")
    case (LowRankTensor d)
    with Some show ?thesis
      by (simp add: copy_GenTensor_def SepRepTensor_copy_this_def GenTensor_sr_def run
          GenTensor_content_def copied_def)
  next
    case (FullTensor t)
    with ok Some have "Tensor_ok h t" by (simp add: handle_ok_def)
    have eq: "copy_GenTensor ops rhs h =
        bind (Tensor_copy t) (\<lambda>c. bind (new_obj (FullTensor c)) (\<lambda>a. return (Some a))) h"
      using Some FullTensor
      by (simp add: copy_GenTensor_def SepRepTensor_copy_this_def FullTensor_copy_this_def
          GenTensor_sr_def run split: prod.splits sum.splits)
    have c: "copied ops (GenTensor_content h rhs) = Dense (t_dim t) (Tensor_elems h t)"
      using Some FullTensor by (simp add: GenTensor_content_def copied_def)
    from copy_dense [OF \<open>Tensor_ok h t\<close>] show ?thesis
      unfolding eq c by blast
  qed
qed

lemma GenTensor_Tensor_content:
  assumes ok: "Tensor_ok h rhs" and k: "tt = TT_FULL \<or> (tt = TT_3D \<or> tt = TT_2D) \<and> 0 < eps"
  shows "\<exists>h1. GenTensor_Tensor ops rhs eps tt h = (Inr (Some (length (objs h))), h1) \<and>
           GenTensor_content h1 (Some (length (objs h))) =
             (if tt = TT_FULL then Dense (t_dim rhs) (Tensor_elems h rhs)
              else LowRank (sr_SepRep_Tensor ops (t_dim rhs) (Tensor_elems h rhs) eps tt))"
proof (cases "tt = TT_FULL")
  case True
  with copy_dense [OF ok] show ?thesis by (simp add: GenTensor_Tensor_def)
next
  case False
  with k have "tt = TT_3D \<or> tt = TT_2D" "0 < eps" by simp_all
  from GenTensor_Tensor_LowRank [OF this ok, of ops] False show ?thesis by fastforce
qed

lemma clone_s_content:
  assumes "sgt_refGT sl = Some a"
  shows "(\<forall>d. objs h ! a = LowRankTensor d \<longrightarrow>
           (\<exists>h1. GenTensor_Slice ops sl h = (Inr (Some (length (objs h))), h1) \<and>
              GenTensor_content h1 (Some (length (objs h))) = LowRank (sr_slice ops d (sgt_s sl)))) \<and>
         (\<forall>t v. objs h ! a = FullTensor t \<and> Tensor_ok h t \<and>
                 Tensor_slice t (sgt_s sl) h = (Inr v, h) \<longrightarrow>
           (\<exists>h1. GenTensor_Slice ops sl h = (Inr (Some (length (objs h))), h1) \<and>
              GenTensor_content h1 (Some (length (objs h))) = Dense (t_dim v) (Tensor_elems h v)))"
proof (intro conjI allI impI)
  fix d assume "objs h ! a = LowRankTensor d"
  with assms show "\<exists>h1. GenTensor_Slice ops sl h = (Inr (Some (length (objs h))), h1) \<and>
              GenTensor_content h1 (Some (length (objs h))) = LowRank (sr_slice ops d (sgt_s sl))"
    by (simp add: GenTensor_Slice_def GenTensor_operator_assign_Slice_def SepRepTensor_clone_s_def
        run GenTensor_content_def)
next
  fix t v
  assume f: "objs h ! a = FullTensor t \<and> Tensor_ok h t \<and> Tensor_slice t (sgt_s sl) h = (Inr v, h)"
  then have "Tensor_ok h v" using Tensor_slice_ok by blast
  have eq: "GenTensor_Slice ops sl h =
      bind (Tensor_copy v) (\<lambda>c. bind (new_obj (FullTensor c)) (\<lambda>a. return (Some a))) h"
    using assms f
    by (simp add: GenTensor_Slice_def GenTensor_operator_assign_Slice_def SepRepTensor_clone_s_def
        FullTensor_clone_s_def run split: prod.splits sum.splits)
  from copy_dense [OF \<open>Tensor_ok h v\<close>]
  show "\<exists>h1. GenTensor_Slice ops sl h = (Inr (Some (length (objs h))), h1) \<and>
              GenTensor_content h1 (Some (length (objs h))) = Dense (t_dim v) (Tensor_elems h v)"
    unfolding eq .
qed


section \<open>Deep copies\<close>

text \<open>
  What the deep constructions do whenever they return.  A construction that returns has
  changed no object and no buffer that existed; the new handle's backend, if it has one
  (the constructors from a tensor leave the handle empty for the kind \<^verbatim>\<open>TT_NONE\<close>, and
  \<^verbatim>\<open>copy\<close> of the empty handle is empty), is a new object, and the buffer of its dense
  array a new buffer; whatever sequence of the in-place operations \<open>mutate\<close> is then run
  through the new handle, every handle and every tensor that existed shows the content
  it showed; whatever sequence is run through a handle that existed, and whatever is
  written into a buffer that existed, the new handle shows the content it was made
  with.  And when they return: \<^verbatim>\<open>copy\<close> of a handle always, with the engine's copy of a
  separated representation or the elements of the dense array; the constructors from
  a tensor for the kind \<^verbatim>\<open>TT_FULL\<close>, and for the low-rank kinds with a positive accuracy,
  with the elements or their factorization; the constructions from a slice proxy of a
  handle with a backend, the assignment being to a handle other than the viewed one,
  with the engine's slice or, when the slices address a region of the dense array, the
  elements of that region.

  Sharing is followed through the backend objects and the buffers of dense arrays.  A
  separated representation is a value of the engine here, so for the low-rank kinds
  the statement is about the backend objects, and about the payload the engine
  returns from \<^verbatim>\<open>copy\<close>, slicing and factorization; storage that two payloads might share
  inside the engine is not part of the header.  \<^verbatim>\<open>fillrandom()\<close> is not one of the in-place
  operations.
\<close>

lemma deep_copies_independent:
  fixes ops :: "('a::comm_ring_1, 's) SepRep_ops" and h :: "('a, 's) heap"
  shows "(\<forall>g' h1. construct ops c h = (Inr g', h1) \<longrightarrow>
      take (length (objs h)) (objs h1) = objs h \<and>
      take (length (bufs h)) (bufs h1) = bufs h \<and>
      (g' = None \<or> g' = Some (length (objs h))) \<and>
      (\<forall>ms g. handle_ok h g \<longrightarrow>
         GenTensor_content (snd (mutate_all ops g' ms h1)) g = GenTensor_content h g) \<and>
      (\<forall>ms t. Tensor_ok h t \<longrightarrow>
         Tensor_elems (snd (mutate_all ops g' ms h1)) t = Tensor_elems h t) \<and>
      (\<forall>ms g. handle_ok h g \<longrightarrow>
         GenTensor_content (snd (mutate_all ops g ms h1)) g' = GenTensor_content h1 g') \<and>
      (\<forall>q xs. q < length (bufs h) \<longrightarrow>
         GenTensor_content (h1\<lparr>bufs := (bufs h1)[q := xs]\<rparr>) g' = GenTensor_content h1 g')) \<and>
    (\<forall>rhs. c = Copy rhs \<and> handle_ok h rhs \<longrightarrow>
      (\<exists>g' h1. construct ops c h = (Inr g', h1) \<and> (rhs \<noteq> None \<longrightarrow> g' \<noteq> None) \<and>
         GenTensor_content h1 g' = copied ops (GenTensor_content h rhs))) \<and>
    (\<forall>rhs eps tt.
      (c = From_Tensor rhs eps tt \<or> c = From_Tensor_args rhs \<lparr>args_thresh = eps, args_tt = tt\<rparr>) \<and>
      Tensor_ok h rhs \<and> (tt = TT_FULL \<or> (tt = TT_3D \<or> tt = TT_2D) \<and> 0 < eps) \<longrightarrow>
      (\<exists>h1. construct ops c h = (Inr (Some (length (objs h))), h1) \<and>
         GenTensor_content h1 (Some (length (objs h))) =
           (if tt = TT_FULL then Dense (t_dim rhs) (Tensor_elems h rhs)
            else LowRank (sr_SepRep_Tensor ops (t_dim rhs) (Tensor_elems h rhs) eps tt)))) \<and>
    (\<forall>sl a. (c = From_Slice sl \<or> c = Assign_Slice False sl \<or> c = Copy_Slice sl) \<and>
            sgt_refGT sl = Some a \<longrightarrow>
      (\<forall>d. objs h ! a = LowRankTensor d \<longrightarrow>
         (\<exists>h1. construct ops c h = (Inr (Some (length (objs h))), h1) \<and>
            GenTensor_content h1 (Some (length (objs h))) = LowRank (sr_slice ops d (sgt_s sl)))) \<and>
      (\<forall>t v. objs h ! a = FullTensor t \<and> Tensor_ok h t \<and>
              Tensor_slice t (sgt_s sl) h = (Inr v, h) \<longrightarrow>
         (\<exists>h1. construct ops c h = (Inr (Some (length (objs h))), h1) \<and>
            GenTensor_content h1 (Some (length (objs h))) = Dense (t_dim v) (Tensor_elems h v))))"
proof (intro conjI allI impI)
  fix g' h1
  assume "construct ops c h = (Inr g', h1)"
  then have ap: "appended h h1 g'" by (rule appended_construct)
  then show "take (length (objs h)) (objs h1) = objs h" "take (length (bufs h)) (bufs h1) = bufs h"
    "g' = None \<or> g' = Some (length (objs h))"
    by (auto simp: appended_def)
  {
    fix ms
    note st = step_nothing [OF new_handle_untouched [OF ap, of ops ms]]
    {
      fix g assume "handle_ok h g"
      then show "GenTensor_content (snd (mutate_all ops g' ms h1)) g = GenTensor_content h g"
        using st by (intro content_unchanged) simp_all
    }
    {
      fix t assume "Tensor_ok h t"
      then show "Tensor_elems (snd (mutate_all ops g' ms h1)) t = Tensor_elems h t"
        using st by (intro elems_unchanged) simp_all
    }
  }
  {
    fix ms g assume "handle_ok h g"
    with ap show "GenTensor_content (snd (mutate_all ops g ms h1)) g' = GenTensor_content h1 g'"
      by (rule old_handle_leaves_new)
  }
  {
    fix q xs assume "q < length (bufs h)"
    with ap show "GenTensor_content (h1\<lparr>bufs := (bufs h1)[q := xs]\<rparr>) g' = GenTensor_content h1 g'"
      by (rule overwrite_leaves_new)
  }
next
  fix rhs
  assume "c = Copy rhs \<and> handle_ok h rhs"
  with copy_GenTensor_content [of h rhs ops]
  show "\<exists>g' h1. construct ops c h = (Inr g', h1) \<and> (rhs \<noteq> None \<longrightarrow> g' \<noteq> None) \<and>
         GenTensor_content h1 g' = copied ops (GenTensor_content h rhs)"
    by simp
next
  fix rhs eps tt
  assume a: "(c = From_Tensor rhs eps tt \<or> c = From_Tensor_args rhs \<lparr>args_thresh = eps, args_tt = tt\<rparr>) \<and>
      Tensor_ok h rhs \<and> (tt = TT_FULL \<or> (tt = TT_3D \<or> tt = TT_2D) \<and> 0 < eps)"
  then have "construct ops c h = GenTensor_Tensor ops rhs eps tt h"
    by (auto simp: GenTensor_Tensor_args_def GenTensor_Tensor_def)
  with GenTensor_Tensor_content [of h rhs tt eps ops] a
  show "\<exists>h1. construct ops c h = (Inr (Some (length (objs h))), h1) \<and>
         GenTensor_content h1 (Some (length (objs h))) =
           (if tt = TT_FULL then Dense (t_dim rhs) (Tensor_elems h rhs)
            else LowRank (sr_SepRep_Tensor ops (t_dim rhs) (Tensor_elems h rhs) eps tt))"
    by simp
next
  fix sl a d
  assume a: "(c = From_Slice sl \<or> c = Assign_Slice False sl \<or> c = Copy_Slice sl) \<and> sgt_refGT sl = Some a"
    and d: "objs h ! a = LowRankTensor d"
  from a have "construct ops c h = GenTensor_Slice ops sl h"
    by (auto simp: GenTensor_Slice_def copy_SliceGenTensor_def)
  with clone_s_content [of sl a h ops] a d
  show "\<exists>h1. construct ops c h = (Inr (Some (length (objs h))), h1) \<and>
            GenTensor_content h1 (Some (length (objs h))) = LowRank (sr_slice ops d (sgt_s sl))"
    by simp
next
  fix sl a t v
  assume a: "(c = From_Slice sl \<or> c = Assign_Slice False sl \<or> c = Copy_Slice sl) \<and> sgt_refGT sl = Some a"
    and t: "objs h ! a = FullTensor t \<and> Tensor_ok h t \<and> Tensor_slice t (sgt_s sl) h = (Inr v, h)"
  from a have "construct ops c h = GenTensor_Slice ops sl h"
    by (auto simp: GenTensor_Slice_def copy_SliceGenTensor_def)
  with clone_s_content [of sl a h ops] a t
  show "\<exists>h1. construct ops c h = (Inr (Some (length (objs h))), h1) \<and>
            GenTensor_content h1 (Some (length (objs h))) = Dense (t_dim v) (Tensor_elems h v)"
    by simp
qed


text \<open>
  The dense handle of the concrete heap and its \<^verbatim>\<open>copy\<close>: scaling the copy by 2 leaves
  the original \<open>[1, 2, 3, 4]\<close>, and scaling the original leaves the copy \<open>[1, 2, 3, 4]\<close>.
\<close>

lemma deep_copies_independent_example:
  "handle_ok example_heap (Some 0) \<and>
   (\<exists>g' h1. construct exact_SepRep (Copy (Some 0)) example_heap = (Inr g', h1) \<and>
      g' = Some 2 \<and>
      GenTensor_content h1 g' = Dense [4] [1, 2, 3, 4] \<and>
      GenTensor_content (snd (mutate_all exact_SepRep g' [Scale 2] h1)) (Some 0) =
        Dense [4] [1, 2, 3, 4] \<and>
      GenTensor_content (snd (mutate_all exact_SepRep (Some 0) [Scale 2] h1)) g' =
        Dense [4] [1, 2, 3, 4])"
proof -
  have ok: "handle_ok example_heap (Some 0)" by code_simp
  have c0: "GenTensor_content example_heap (Some 0) = Dense [4] [1, 2, 3, 4]" by code_simp
  have cp: "copied exact_SepRep (GenTensor_content example_heap (Some 0)) = Dense [4] [1, 2, 3, 4]"
    by code_simp
  have len: "length (objs example_heap) = 2" by code_simp
  note th = deep_copies_independent [of exact_SepRep "Copy (Some 0)" example_heap]
  have "Copy (Some 0) = Copy (Some 0) \<and> handle_ok example_heap (Some 0)" using ok by simp
  with th [THEN conjunct2, THEN conjunct1, rule_format, of "Some 0"] obtain g' h1 where
    r: "construct exact_SepRep (Copy (Some 0)) example_heap = (Inr g', h1)"
    and ne: "g' \<noteq> None"
    and c1: "GenTensor_content h1 g' = copied exact_SepRep (GenTensor_content example_heap (Some 0))"
    by auto
  note ind = th [THEN conjunct1, rule_format, OF r]
  from ind have g: "g' = None \<or> g' = Some (length (objs example_heap))" by simp
  from ind have f1: "\<forall>ms g. handle_ok example_heap g \<longrightarrow>
         GenTensor_content (snd (mutate_all exact_SepRep g' ms h1)) g =
         GenTensor_content example_heap g"
    by simp
  from ind have f2: "\<forall>ms g. handle_ok example_heap g \<longrightarrow>
         GenTensor_content (snd (mutate_all exact_SepRep g ms h1)) g' = GenTensor_content h1 g'"
    by simp
  from g ne len have g2: "g' = Some 2" by simp
  from f1 [rule_format, OF ok, of "[Scale 2]"] c0
  have a: "GenTensor_content (snd (mutate_all exact_SepRep g' [Scale 2] h1)) (Some 0) =
        Dense [4] [1, 2, 3, 4]"
    by simp
  from f2 [rule_format, OF ok, of "[Scale 2]"] c1 cp
  have b: "GenTensor_content (snd (mutate_all exact_SepRep (Some 0) [Scale 2] h1)) g' =
        Dense [4] [1, 2, 3, 4]"
    by simp
  from c1 cp have c: "GenTensor_content h1 g' = Dense [4] [1, 2, 3, 4]" by simp
  from ok r g2 c a b show ?thesis by blast
qed

section \<open>Assignment of a slice to the viewed handle\<close>

text \<open>
  C3.  The assignment \<^verbatim>\<open>g = g(s)\<close> of a slice of a handle to that very handle produces no
  backend: \<^verbatim>\<open>operator=(const SliceGenTensor&)\<close> clears the handle assigned to and only then
  calls \<^verbatim>\<open>clone\<close> through the pointer of the viewed handle, which is the same handle and
  empty by then, so the call goes through the empty pointer and nothing is copied, for
  every engine, handle, slices and heap.  The constructor from a proxy,
  \<^verbatim>\<open>GenTensor(const SliceGenTensor&)\<close>, runs the same assignment on a handle that no proxy
  views, and does produce the copy: for the dense handle of the concrete heap, the array
  \<open>[1, 2, 3, 4]\<close>, and the slice \<^verbatim>\<open>Slice(0,1)\<close>, a new backend that holds \<open>[1, 2]\<close>.
\<close>

theorem slice_assigned_to_viewed_handle:
  "GenTensor_operator_assign_Slice ops True (GenTensor_operator_call g s) h = (Inl NullPointer, h) \<and>
   (\<exists>h1. GenTensor_Slice exact_SepRep (GenTensor_operator_call (Some 0) [Slice 0 1 1]) example_heap =
           (Inr (Some 2), h1) \<and>
         GenTensor_content h1 (Some 2) = Dense [2] [1, 2] \<and>
         GenTensor_content h1 (Some 0) = Dense [4] [1, 2, 3, 4])"
proof
  show "GenTensor_operator_assign_Slice ops True (GenTensor_operator_call g s) h = (Inl NullPointer, h)"
    by (simp add: GenTensor_operator_assign_Slice_def SepRepTensor_clone_s_def run)
  have r: "GenTensor_Slice exact_SepRep (GenTensor_operator_call (Some 0) [Slice 0 1 1]) example_heap =
      (Inr (Some 2),
       example_heap\<lparr>bufs := bufs example_heap @ [[1, 2]],
         objs := objs example_heap @
           [FullTensor \<lparr>t_p = Some 1, t_off = 0, t_dim = [2], t_stride = [1]\<rparr>]\<rparr>)"
    by code_simp
  have c: "GenTensor_content
      (example_heap\<lparr>bufs := bufs example_heap @ [[1, 2]],
         objs := objs example_heap @
           [FullTensor \<lparr>t_p = Some 1, t_off = 0, t_dim = [2], t_stride = [1]\<rparr>]\<rparr>) (Some 2) =
      Dense [2] [1, 2]"
    by code_simp
  have d: "GenTensor_content
      (example_heap\<lparr>bufs := bufs example_heap @ [[1, 2]],
         objs := objs example_heap @
           [FullTensor \<lparr>t_p = Some 1, t_off = 0, t_dim = [2], t_stride = [1]\<rparr>]\<rparr>) (Some 0) =
      Dense [4] [1, 2, 3, 4]"
    by code_simp
  from r c d show "\<exists>h1. GenTensor_Slice exact_SepRep (GenTensor_operator_call (Some 0) [Slice 0 1 1])
      example_heap = (Inr (Some 2), h1) \<and>
         GenTensor_content h1 (Some 2) = Dense [2] [1, 2] \<and>
         GenTensor_content h1 (Some 0) = Dense [4] [1, 2, 3, 4]"
    by blast
qed

end
